theory Spec2Isabelle
  imports Complex_Main
begin

section \<open>Common data of the exchange wrappers\<close>

text \<open>
  The wrappers of the packages \<^verbatim>\<open>localbitcoins\<close> and \<^verbatim>\<open>huobihadax\<close> are embedded as
  HOL functions. Conventions of the embedding:
  \<^item> a Go \<^verbatim>\<open>float64\<close> is a \<^typ>\<open>real\<close>: finite values with exact arithmetic. NaN, the
    infinities and rounding are outside the model;
  \<^item> a Go \<^verbatim>\<open>int\<close> or \<^verbatim>\<open>int64\<close> that the wrappers only copy, compare or print is an
    \<^typ>\<open>int\<close>;
  \<^item> a Go result pair \<^verbatim>\<open>(value, error)\<close> is a HOL pair whose second component is an
    \<open>error option\<close>, \<open>None\<close> standing for \<^verbatim>\<open>nil\<close>. The value is kept next to a non-nil
    error, since the wrappers sometimes go on using it;
  \<^item> every request to the venue (the REST calls of the exchange packages, whose code is
    outside the wrappers) is answered by a response function of the venue. A response may
    depend on the log of all requests issued so far, and every request a wrapper issues is
    appended to that log, so the number and order of the dispatches are visible in the
    result of each wrapper;
  \<^item> an error that comes back from a venue call is represented by its \<^verbatim>\<open>Error()\<close> text, the
    only thing beside nil-ness that the wrappers observe of it.
\<close>

type_synonym float64 = real

text \<open>
  The two sentinel values \<^verbatim>\<open>common.ErrFunctionNotSupported\<close> and
  \<^verbatim>\<open>common.ErrNotYetImplemented\<close> are separate package variables of \<^verbatim>\<open>common\<close>;
  \<open>ErrorString\<close> is an error made by \<^verbatim>\<open>errors.New\<close> or \<^verbatim>\<open>fmt.Errorf\<close>, or one that a
  venue call returned, with its text. \<open>ErrNoSnapshot\<close> is the error with which a lookup in
  the market data cache fails (its text is declared in the packages of the cache).
\<close>

datatype error = ErrFunctionNotSupported | ErrNotYetImplemented | ErrNoSnapshot | ErrorString string

record CurrencyPair =
  Delimiter :: string
  FirstCurrency :: string
  SecondCurrency :: string

datatype AssetType = AssetTypeSpot | AssetTypeOther string

datatype OrderSide = Buy | Sell | OtherSide string

datatype OrderType = Market | Limit | OtherType string

text \<open>
  The part of the embedded \<^verbatim>\<open>exchange.Base\<close> that the wrappers read. Its methods
  \<^verbatim>\<open>GetEnabledPairs\<close> and \<^verbatim>\<open>FormatExchangeCurrency\<close> (followed by \<^verbatim>\<open>String()\<close>) are declared
  outside the wrappers and are fields here; \<^verbatim>\<open>GetName()\<close> is the field \<open>Name\<close>. A
  LocalBitcoins driver is such a base.
\<close>

record exchange_Base =
  Name :: string
  GetEnabledPairs :: "AssetType \<Rightarrow> CurrencyPair list"
  FormatExchangeCurrency :: "CurrencyPair \<Rightarrow> AssetType \<Rightarrow> string"

type_synonym LocalBitcoins = exchange_Base

record SubmitOrderResponse =
  IsOrderPlaced :: bool
  OrderID :: string

text \<open>The zero value of \<^verbatim>\<open>exchange.SubmitOrderResponse\<close> (\<^verbatim>\<open>var submitOrderResponse\<close>).\<close>

definition zero_SubmitOrderResponse :: SubmitOrderResponse where
  "zero_SubmitOrderResponse = \<lparr>IsOrderPlaced = False, OrderID = ''''\<rparr>"

typedecl FundHistory
typedecl Websocket

subsection \<open>Printing integers\<close>

text \<open>
  \<^verbatim>\<open>strconv.FormatInt(i, 10)\<close>, which is also what \<^verbatim>\<open>fmt.Sprintf("%v", i)\<close> prints for an
  integer: the decimal digits, after a minus sign for a negative number.
\<close>

definition digit :: "nat \<Rightarrow> char" where
  "digit d = ''0123456789'' ! d"

function FormatUint :: "nat \<Rightarrow> string" where
  "FormatUint n = (if n < 10 then [digit n] else FormatUint (n div 10) @ [digit (n mod 10)])"
  by pat_completeness auto
termination
  by (relation "measure id") auto

declare FormatUint.simps [simp del]

definition FormatInt :: "int \<Rightarrow> string" where
  "FormatInt i = (if i < 0 then CHR ''-'' # FormatUint (nat (- i)) else FormatUint (nat i))"

text \<open>
  \<^verbatim>\<open>math.Round\<close> followed by the conversion to \<^verbatim>\<open>int\<close>: the nearest integer, halves away
  from zero. (Go leaves the conversion of a value outside the range of \<^verbatim>\<open>int\<close> to the
  implementation; the model keeps the mathematical integer.)
\<close>

definition Round_int :: "float64 \<Rightarrow> int" where
  "Round_int x = (if 0 \<le> x then \<lfloor>x + 1 / 2\<rfloor> else \<lceil>x - 1 / 2\<rceil>)"

section \<open>LocalBitcoins\<close>

subsection \<open>Operations without a venue equivalent\<close>

text \<open>
  These methods ignore their receiver and their arguments and issue no request; each is the
  constant pair it returns.
\<close>

definition LocalBitcoins_GetFundingHistory :: "FundHistory list \<times> error option" where
  "LocalBitcoins_GetFundingHistory = ([], Some ErrFunctionNotSupported)"

definition LocalBitcoins_GetDepositAddress :: "string \<Rightarrow> string \<times> error option" where
  "LocalBitcoins_GetDepositAddress cryptocurrency = ('''', Some ErrNotYetImplemented)"

definition LocalBitcoins_WithdrawCryptocurrencyFunds ::
  "string \<Rightarrow> string \<Rightarrow> float64 \<Rightarrow> string \<times> error option" where
  "LocalBitcoins_WithdrawCryptocurrencyFunds address cryptocurrency amount =
     ('''', Some ErrNotYetImplemented)"

definition LocalBitcoins_WithdrawFiatFunds :: "string \<Rightarrow> float64 \<Rightarrow> string \<times> error option" where
  "LocalBitcoins_WithdrawFiatFunds currency amount = ('''', Some ErrNotYetImplemented)"

definition LocalBitcoins_WithdrawFiatFundsToInternationalBank ::
  "string \<Rightarrow> float64 \<Rightarrow> string \<times> error option" where
  "LocalBitcoins_WithdrawFiatFundsToInternationalBank currency amount =
     ('''', Some ErrNotYetImplemented)"

definition LocalBitcoins_GetWebsocket :: "Websocket option \<times> error option" where
  "LocalBitcoins_GetWebsocket = (None, Some ErrNotYetImplemented)"

subsection \<open>The venue\<close>

text \<open>
  The parameters of an advertisement, as \<^verbatim>\<open>SubmitOrder\<close> fills them in, and an entry of the
  advertisement list (\<^verbatim>\<open>i.Data\<close>), with the fields the wrapper reads.
\<close>

record AdCreate =
  PriceEquation :: string
  Latitude :: int
  Longitude :: int
  City :: string
  Location :: string
  CountryCode :: string
  Currency :: string
  AccountInfo :: string
  BankName :: string
  MSG :: string
  SMSVerficationRequired :: bool
  TrackMaxAmount :: bool
  RequireTrustedByAdvertiser :: bool
  RequireIdentification :: bool
  OnlineProvider :: string
  TradeType :: string
  MinAmount :: int

record AdListItem =
  Data_PriceEquation :: string
  Data_Lat :: float64
  Data_Lon :: float64
  Data_City :: string
  Data_Location :: string
  Data_CountryCode :: string
  Data_Currency :: string
  Data_AccountInfo :: string
  Data_BankName :: string
  Data_SMSVerficationRequired :: bool
  Data_TrackMaxAmount :: bool
  Data_RequireTrustedByAdvertiser :: bool
  Data_OnlineProvider :: string
  Data_TradeType :: string
  Data_MinAmount :: string
  Data_AdID :: int

record AdData =
  AdList :: "AdListItem list"

text \<open>A ticker of one currency and the order book of one currency, as the venue sends them.\<close>

record Ticker =
  Avg24h :: float64
  VolumeBTC :: float64

record Price_Amount =
  Price :: float64
  Amount :: float64

record Orderbook =
  Bids :: "Price_Amount list"
  Asks :: "Price_Amount list"

datatype lbc_request =
  CreateAd_request AdCreate
  | Getads_request
  | DeleteAd_request string
  | GetTicker_request
  | GetOrderbook_request string

text \<open>
  The venue: for each REST call of package \<^verbatim>\<open>localbitcoins\<close> that the wrapper uses, the
  response after a given log of requests. \<^verbatim>\<open>GetTicker\<close> returns a Go map; reading a
  missing key of it gives the zero ticker.
\<close>

record lbc_venue =
  CreateAd :: "lbc_request list \<Rightarrow> AdCreate \<Rightarrow> string option"
  Getads :: "lbc_request list \<Rightarrow> AdData \<times> string option"
  DeleteAd :: "lbc_request list \<Rightarrow> string \<Rightarrow> string option"
  GetTicker :: "lbc_request list \<Rightarrow> (string \<rightharpoonup> Ticker) \<times> string option"
  GetOrderbook :: "lbc_request list \<Rightarrow> string \<Rightarrow> Orderbook \<times> string option"

subsection \<open>SubmitOrder\<close>

text \<open>
  The placeholder parameters. \<open>ToString\<close> is the method of \<^verbatim>\<open>exchange.OrderSide\<close>, declared
  outside the wrapper; order type, price and client id do not enter.
\<close>

definition SubmitOrder_params ::
  "(OrderSide \<Rightarrow> string) \<Rightarrow> CurrencyPair \<Rightarrow> OrderSide \<Rightarrow> float64 \<Rightarrow> AdCreate" where
  "SubmitOrder_params ToString p side amount =
     \<lparr>PriceEquation = ''USD_in_AUD'',
      Latitude = 1,
      Longitude = 1,
      City = ''City'',
      Location = ''Location'',
      CountryCode = ''US'',
      Currency = SecondCurrency p,
      AccountInfo = ''-'',
      BankName = ''Bank'',
      MSG = ToString side,
      SMSVerficationRequired = True,
      TrackMaxAmount = True,
      RequireTrustedByAdvertiser = True,
      RequireIdentification = True,
      OnlineProvider = '''',
      TradeType = '''',
      MinAmount = Round_int amount\<rparr>"

text \<open>The condition under which the loop takes a listed advertisement for the one just placed.\<close>

definition ad_matches :: "AdCreate \<Rightarrow> AdListItem \<Rightarrow> bool" where
  "ad_matches params i \<longleftrightarrow>
     Data_PriceEquation i = PriceEquation params \<and>
     Data_Lat i = real_of_int (Latitude params) \<and>
     Data_Lon i = real_of_int (Longitude params) \<and>
     Data_City i = City params \<and>
     Data_Location i = Location params \<and>
     Data_CountryCode i = CountryCode params \<and>
     Data_Currency i = Currency params \<and>
     Data_AccountInfo i = AccountInfo params \<and>
     Data_BankName i = BankName params \<and>
     Data_SMSVerficationRequired i = SMSVerficationRequired params \<and>
     Data_TrackMaxAmount i = TrackMaxAmount params \<and>
     Data_RequireTrustedByAdvertiser i = RequireTrustedByAdvertiser params \<and>
     Data_OnlineProvider i = OnlineProvider params \<and>
     Data_TradeType i = TradeType params \<and>
     Data_MinAmount i = FormatInt (MinAmount params)"

text \<open>The loop over \<^verbatim>\<open>ads.AdList\<close>: every matching entry overwrites \<^verbatim>\<open>adID\<close>.\<close>

fun SubmitOrder_scan :: "AdCreate \<Rightarrow> AdListItem list \<Rightarrow> string \<Rightarrow> string" where
  "SubmitOrder_scan params [] adID = adID"
| "SubmitOrder_scan params (i # rest) adID =
     SubmitOrder_scan params rest (if ad_matches params i then FormatInt (Data_AdID i) else adID)"

definition LocalBitcoins_SubmitOrder ::
  "(OrderSide \<Rightarrow> string) \<Rightarrow> lbc_venue \<Rightarrow> lbc_request list \<Rightarrow> CurrencyPair \<Rightarrow> OrderSide \<Rightarrow>
   OrderType \<Rightarrow> float64 \<Rightarrow> float64 \<Rightarrow> string \<Rightarrow>
   (SubmitOrderResponse \<times> error option) \<times> lbc_request list" where
  "LocalBitcoins_SubmitOrder ToString v sent p side orderType amount price clientID =
     (let params = SubmitOrder_params ToString p side amount;
          sent1 = sent @ [CreateAd_request params]
      in case CreateAd v sent params of
           Some e \<Rightarrow> ((zero_SubmitOrderResponse, Some (ErrorString e)), sent1)
         | None \<Rightarrow>
             (let submitOrderResponse = zero_SubmitOrderResponse\<lparr>IsOrderPlaced := True\<rparr>;
                  (ads, err) = Getads v sent1;
                  sent2 = sent1 @ [Getads_request];
                  adID = SubmitOrder_scan params (AdList ads) ''''
              in if adID \<noteq> ''''
                 then ((submitOrderResponse\<lparr>OrderID := adID\<rparr>, map_option ErrorString err), sent2)
                 else ((submitOrderResponse,
                        Some (ErrorString ''Ad placed, but not found via API'')), sent2)))"

subsection \<open>CancelAllOrders\<close>

record CancelAllOrdersResponse =
  OrderStatus :: "string \<rightharpoonup> string"

text \<open>
  The loop over \<^verbatim>\<open>ads.AdList\<close>: one \<^verbatim>\<open>DeleteAd\<close> request per entry; a failure is entered
  in the status map under the printed id and the loop goes on.
\<close>

fun CancelAllOrders_loop ::
  "lbc_venue \<Rightarrow> AdListItem list \<Rightarrow> lbc_request list \<Rightarrow> (string \<rightharpoonup> string) \<Rightarrow>
   (string \<rightharpoonup> string) \<times> lbc_request list" where
  "CancelAllOrders_loop v [] sent status = (status, sent)"
| "CancelAllOrders_loop v (ad # rest) sent status =
     (let adIDString = FormatInt (Data_AdID ad)
      in CancelAllOrders_loop v rest (sent @ [DeleteAd_request adIDString])
           (case DeleteAd v sent adIDString of
              None \<Rightarrow> status
            | Some e \<Rightarrow> status(FormatInt (Data_AdID ad) \<mapsto> e)))"

text \<open>The argument \<^verbatim>\<open>orderCancellation\<close> is not read by this wrapper and is left out.\<close>

definition LocalBitcoins_CancelAllOrders ::
  "lbc_venue \<Rightarrow> lbc_request list \<Rightarrow> (CancelAllOrdersResponse \<times> error option) \<times> lbc_request list" where
  "LocalBitcoins_CancelAllOrders v sent =
     (let (ads, err) = Getads v sent;
          sent1 = sent @ [Getads_request]
      in case err of
           Some e \<Rightarrow> ((\<lparr>OrderStatus = Map.empty\<rparr>, Some (ErrorString e)), sent1)
         | None \<Rightarrow>
             (let (status, sent2) = CancelAllOrders_loop v (AdList ads) sent1 Map.empty
              in ((\<lparr>OrderStatus = status\<rparr>, None), sent2)))"

section \<open>HuobiHadax\<close>

subsection \<open>The driver and the venue\<close>

record HUOBIHADAX = exchange_Base +
  AccountID :: string

record Account =
  ID :: int

datatype SpotNewOrderRequestParamsType =
  SpotNewOrderRequestTypeNone
  | SpotNewOrderRequestTypeBuyMarket
  | SpotNewOrderRequestTypeSellMarket
  | SpotNewOrderRequestTypeBuyLimit
  | SpotNewOrderRequestTypeSellLimit

record SpotNewOrderRequestParams =
  Params_Amount :: float64
  Params_Source :: string
  Params_Symbol :: string
  Params_AccountID :: int
  Params_Price :: float64
  Params_Type :: SpotNewOrderRequestParamsType

record CancelOpenOrdersBatch_response =
  Data_FailedCount :: int

record DetailMerged =
  Detail_Low :: float64
  Detail_Close :: float64
  Detail_Volume :: float64
  Detail_High :: float64
  Detail_Ask :: "float64 list"
  Detail_Bid :: "float64 list"

record Depth =
  Depth_Bids :: "float64 list list"
  Depth_Asks :: "float64 list list"

datatype hb_request =
  GetAccounts_request
  | SpotNewOrder_request SpotNewOrderRequestParams
  | CancelOpenOrdersBatch_request string string
  | GetMarketDetailMerged_request string
  | GetDepth_request string string

record hb_venue =
  GetAccounts :: "hb_request list \<Rightarrow> Account list \<times> string option"
  SpotNewOrder :: "hb_request list \<Rightarrow> SpotNewOrderRequestParams \<Rightarrow> int \<times> string option"
  CancelOpenOrdersBatch ::
    "hb_request list \<Rightarrow> string \<Rightarrow> string \<Rightarrow> CancelOpenOrdersBatch_response \<times> string option"
  GetMarketDetailMerged :: "hb_request list \<Rightarrow> string \<Rightarrow> DetailMerged \<times> string option"
  GetDepth :: "hb_request list \<Rightarrow> string \<Rightarrow> string \<Rightarrow> Depth \<times> string option"

subsection \<open>GetAccountID\<close>

text \<open>
  The method locks the package variable \<^verbatim>\<open>mtx\<close> for its duration; the embedding is of one
  call running alone. No field of the receiver is assigned, so the driver is returned as it
  came.
\<close>

definition HUOBIHADAX_GetAccountID ::
  "hb_venue \<Rightarrow> HUOBIHADAX \<Rightarrow> hb_request list \<Rightarrow>
   (string \<times> error option) \<times> HUOBIHADAX \<times> hb_request list" where
  "HUOBIHADAX_GetAccountID v h sent =
     (if AccountID h = ''''
      then (let (acc, err) = GetAccounts v sent;
                sent1 = sent @ [GetAccounts_request]
            in case err of
                 Some e \<Rightarrow> (('''', Some (ErrorString e)), h, sent1)
               | None \<Rightarrow>
                   (case acc of
                      a # _ \<Rightarrow> ((FormatInt (ID a), None), h, sent1)
                    | [] \<Rightarrow> (('''', Some (ErrorString ''no account ID fetched'')), h, sent1)))
      else ((AccountID h, None), h, sent))"

subsection \<open>SubmitOrder\<close>

text \<open>
  The chain of conditions on side and order type: the type code and whether the price is
  set, or \<open>None\<close> for the final \<^verbatim>\<open>else\<close>.
\<close>

definition formattedType :: "OrderSide \<Rightarrow> OrderType \<Rightarrow> (SpotNewOrderRequestParamsType \<times> bool) option" where
  "formattedType side orderType =
     (if side = Buy \<and> orderType = Market then Some (SpotNewOrderRequestTypeBuyMarket, False)
      else if side = Sell \<and> orderType = Market then Some (SpotNewOrderRequestTypeSellMarket, False)
      else if side = Buy \<and> orderType = Limit then Some (SpotNewOrderRequestTypeBuyLimit, True)
      else if side = Sell \<and> orderType = Limit then Some (SpotNewOrderRequestTypeSellLimit, True)
      else None)"

text \<open>
  \<open>ParseInt\<close> is \<^verbatim>\<open>strconv.ParseInt(_, 0, 64)\<close> of the Go library, returning its value next to
  its error; \<open>Symbol_of\<close> is \<^verbatim>\<open>common.StringToLower(p.Pair().String())\<close>. Both are declared
  outside the wrapper. The conversion \<^verbatim>\<open>int(accountID)\<close> keeps the value (an \<^verbatim>\<open>int\<close> of 64
  bits). The second \<^verbatim>\<open>:=\<close> assigns the same variable \<^verbatim>\<open>err\<close> again, so the error of
  \<open>ParseInt\<close> is dropped.
\<close>

definition HUOBIHADAX_SubmitOrder ::
  "(string \<Rightarrow> int \<times> error option) \<Rightarrow> (CurrencyPair \<Rightarrow> string) \<Rightarrow> hb_venue \<Rightarrow> hb_request list \<Rightarrow>
   CurrencyPair \<Rightarrow> OrderSide \<Rightarrow> OrderType \<Rightarrow> float64 \<Rightarrow> float64 \<Rightarrow> string \<Rightarrow>
   (SubmitOrderResponse \<times> error option) \<times> hb_request list" where
  "HUOBIHADAX_SubmitOrder ParseInt Symbol_of v sent p side orderType amount price clientID =
     (let (accountID, err) = ParseInt clientID;
          params = \<lparr>Params_Amount = amount,
                    Params_Source = ''api'',
                    Params_Symbol = Symbol_of p,
                    Params_AccountID = accountID,
                    Params_Price = 0,
                    Params_Type = SpotNewOrderRequestTypeNone\<rparr>
      in case formattedType side orderType of
           None \<Rightarrow> ((zero_SubmitOrderResponse, Some (ErrorString ''Unsupported order type'')), sent)
         | Some (t, with_price) \<Rightarrow>
             (let params1 = (if with_price then params\<lparr>Params_Price := price\<rparr> else params);
                  params2 = params1\<lparr>Params_Type := t\<rparr>;
                  (response, err) = SpotNewOrder v sent params2;
                  sent1 = sent @ [SpotNewOrder_request params2];
                  r1 = (if response > 0
                        then zero_SubmitOrderResponse\<lparr>OrderID := FormatInt response\<rparr>
                        else zero_SubmitOrderResponse);
                  r2 = (if err = None then r1\<lparr>IsOrderPlaced := True\<rparr> else r1)
              in ((r2, map_option ErrorString err), sent1)))"

subsection \<open>CancelAllOrders\<close>

text \<open>
  The loop over the enabled spot pairs: one batch request per pair, and a return out of the
  loop at the first request that fails or reports failed orders. \<open>accountID\<close> is
  \<^verbatim>\<open>orderCancellation.AccountID\<close>, the only field of the argument that is read.
\<close>

fun HUOBIHADAX_CancelAllOrders_loop ::
  "hb_venue \<Rightarrow> HUOBIHADAX \<Rightarrow> string \<Rightarrow> CurrencyPair list \<Rightarrow> hb_request list \<Rightarrow>
   error option \<times> hb_request list" where
  "HUOBIHADAX_CancelAllOrders_loop v h accountID [] sent = (None, sent)"
| "HUOBIHADAX_CancelAllOrders_loop v h accountID (currency # rest) sent =
     (let symbol = FormatExchangeCurrency h currency AssetTypeSpot;
          (resp, err) = CancelOpenOrdersBatch v sent accountID symbol;
          sent1 = sent @ [CancelOpenOrdersBatch_request accountID symbol]
      in case err of
           Some e \<Rightarrow> (Some (ErrorString e), sent1)
         | None \<Rightarrow>
             if Data_FailedCount resp > 0
             then (Some (ErrorString (FormatInt (Data_FailedCount resp) @ '' orders failed to cancel'')),
                   sent1)
             else HUOBIHADAX_CancelAllOrders_loop v h accountID rest sent1)"

definition HUOBIHADAX_CancelAllOrders ::
  "hb_venue \<Rightarrow> HUOBIHADAX \<Rightarrow> hb_request list \<Rightarrow> string \<Rightarrow>
   (CancelAllOrdersResponse \<times> error option) \<times> hb_request list" where
  "HUOBIHADAX_CancelAllOrders v h sent accountID =
     (let (err, sent1) =
            HUOBIHADAX_CancelAllOrders_loop v h accountID (GetEnabledPairs h AssetTypeSpot) sent
      in ((\<lparr>OrderStatus = Map.empty\<rparr>, err), sent1))"

section \<open>Market data cache\<close>

text \<open>
  Modelled from the spec: the packages \<^verbatim>\<open>ticker\<close> and \<^verbatim>\<open>orderbook\<close>, whose functions
  \<^verbatim>\<open>GetTicker\<close>, \<^verbatim>\<open>ProcessTicker\<close>, \<^verbatim>\<open>GetOrderbook\<close> and \<^verbatim>\<open>ProcessOrderbook\<close> the wrappers
  call, are not among the sources. The spec describes them as one cache keyed by venue, pair
  and market type: a lookup returns the current snapshot if it is present and not older
  than a staleness threshold, and a store replaces the prior snapshot. An entry holds the
  snapshot and its capture time; the cache reads the time from the field \<open>clock\<close>, which
  stands still during one call of a wrapper.
\<close>

type_synonym cache_key = "string \<times> CurrencyPair \<times> AssetType"

record 'a market_data_cache =
  entries :: "cache_key \<rightharpoonup> 'a \<times> nat"
  clock :: nat
  staleness_threshold :: nat

definition cache_get :: "'a market_data_cache \<Rightarrow> cache_key \<Rightarrow> 'a option" where
  "cache_get c k =
     (case entries c k of
        None \<Rightarrow> None
      | Some (x, captured) \<Rightarrow>
          if clock c - captured \<le> staleness_threshold c then Some x else None)"

definition cache_put :: "'a market_data_cache \<Rightarrow> cache_key \<Rightarrow> 'a \<Rightarrow> 'a market_data_cache" where
  "cache_put c k x = c\<lparr>entries := (entries c)(k \<mapsto> (x, clock c))\<rparr>"

subsection \<open>Tickers\<close>





subsection \<open>Order books\<close>

text \<open>
  \<^verbatim>\<open>orderbook.Item\<close> and the two sides of \<^verbatim>\<open>orderbook.Base\<close>, the only fields the wrappers
  set, with the zero value.
\<close>

record orderbook_Item =
  Item_Amount :: float64
  Item_Price :: float64

record orderbook_Base =
  Base_Bids :: "orderbook_Item list"
  Base_Asks :: "orderbook_Item list"

definition zero_orderbook_Base :: orderbook_Base where
  "zero_orderbook_Base = \<lparr>Base_Bids = [], Base_Asks = []\<rparr>"

text \<open>
  Modelled from the spec: \<^verbatim>\<open>orderbook.GetOrderbook\<close> is the lookup of the cache and
  \<^verbatim>\<open>orderbook.ProcessOrderbook\<close> its store, which keeps the snapshot as it is given.
\<close>

definition orderbook_GetOrderbook ::
  "orderbook_Base market_data_cache \<Rightarrow> string \<Rightarrow> CurrencyPair \<Rightarrow> AssetType \<Rightarrow>
   orderbook_Base \<times> error option" where
  "orderbook_GetOrderbook c exchangeName p assetType =
     (case cache_get c (exchangeName, p, assetType) of
        Some x \<Rightarrow> (x, None)
      | None \<Rightarrow> (zero_orderbook_Base, Some ErrNoSnapshot))"

definition orderbook_ProcessOrderbook ::
  "orderbook_Base market_data_cache \<Rightarrow> string \<Rightarrow> CurrencyPair \<Rightarrow> orderbook_Base \<Rightarrow> AssetType \<Rightarrow>
   orderbook_Base market_data_cache" where
  "orderbook_ProcessOrderbook c exchangeName p orderbookNew assetType =
     cache_put c (exchangeName, p, assetType) orderbookNew"

section \<open>Market data of LocalBitcoins\<close>





text \<open>
  \<^verbatim>\<open>UpdateOrderbook\<close> copies the levels in the order of the venue's response, dividing each
  amount by its price. (For a price of 0 the quotient is 0 in HOL, and an infinity or NaN in
  Go: the amount of such a level is outside the model.)
\<close>

definition LocalBitcoins_Item :: "Price_Amount \<Rightarrow> orderbook_Item" where
  "LocalBitcoins_Item data = \<lparr>Item_Amount = Amount data / Price data, Item_Price = Price data\<rparr>"

definition LocalBitcoins_UpdateOrderbook ::
  "lbc_venue \<Rightarrow> LocalBitcoins \<Rightarrow> orderbook_Base market_data_cache \<Rightarrow> lbc_request list \<Rightarrow>
   CurrencyPair \<Rightarrow> AssetType \<Rightarrow>
   (orderbook_Base \<times> error option) \<times> orderbook_Base market_data_cache \<times> lbc_request list" where
  "LocalBitcoins_UpdateOrderbook v l c sent p assetType =
     (let (orderbookNew, err) = GetOrderbook v sent (SecondCurrency p);
          sent1 = sent @ [GetOrderbook_request (SecondCurrency p)]
      in case err of
           Some e \<Rightarrow> ((zero_orderbook_Base, Some (ErrorString e)), c, sent1)
         | None \<Rightarrow>
             (let orderBook = \<lparr>Base_Bids = map LocalBitcoins_Item (Bids orderbookNew),
                               Base_Asks = map LocalBitcoins_Item (Asks orderbookNew)\<rparr>;
                  c1 = orderbook_ProcessOrderbook c (Name l) p orderBook assetType
              in (orderbook_GetOrderbook c1 (Name l) p assetType, c1, sent1)))"

section \<open>Market data of HuobiHadax\<close>




text \<open>
  A level of the depth response is a slice; \<^verbatim>\<open>data[1]\<close> and \<^verbatim>\<open>data[0]\<close> panic on a level
  with fewer than two numbers. \<open>None\<close> is that panic, for a level, for a side and for the
  whole call.
\<close>

definition HUOBIHADAX_Item :: "float64 list \<Rightarrow> orderbook_Item option" where
  "HUOBIHADAX_Item data =
     (if length data < 2 then None
      else Some \<lparr>Item_Amount = data ! 1, Item_Price = data ! 0\<rparr>)"

fun HUOBIHADAX_Items :: "float64 list list \<Rightarrow> orderbook_Item list option" where
  "HUOBIHADAX_Items [] = Some []"
| "HUOBIHADAX_Items (data # rest) =
     (case HUOBIHADAX_Item data of
        None \<Rightarrow> None
      | Some item \<Rightarrow>
          (case HUOBIHADAX_Items rest of
             None \<Rightarrow> None
           | Some items \<Rightarrow> Some (item # items)))"

definition HUOBIHADAX_UpdateOrderbook ::
  "hb_venue \<Rightarrow> HUOBIHADAX \<Rightarrow> orderbook_Base market_data_cache \<Rightarrow> hb_request list \<Rightarrow>
   CurrencyPair \<Rightarrow> AssetType \<Rightarrow>
   ((orderbook_Base \<times> error option) \<times> orderbook_Base market_data_cache \<times> hb_request list) option"
  where
  "HUOBIHADAX_UpdateOrderbook v h c sent p assetType =
     (let symbol = FormatExchangeCurrency h p assetType;
          (orderbookNew, err) = GetDepth v sent symbol ''step1'';
          sent1 = sent @ [GetDepth_request symbol ''step1'']
      in case err of
           Some e \<Rightarrow> Some ((zero_orderbook_Base, Some (ErrorString e)), c, sent1)
         | None \<Rightarrow>
             (case HUOBIHADAX_Items (Depth_Bids orderbookNew) of
                None \<Rightarrow> None
              | Some bids \<Rightarrow>
                  (case HUOBIHADAX_Items (Depth_Asks orderbookNew) of
                     None \<Rightarrow> None
                   | Some asks \<Rightarrow>
                       (let orderBook = \<lparr>Base_Bids = bids, Base_Asks = asks\<rparr>;
                            c1 = orderbook_ProcessOrderbook c (Name h) p orderBook assetType
                        in Some (orderbook_GetOrderbook c1 (Name h) p assetType, c1, sent1)))))"

section \<open>OKEX: GetFee\<close>

text \<open>
  The fee request, with the fields that \<^verbatim>\<open>setFeeBuilder\<close> of the OKEX test fills in, and the
  fee types the test asks for.
\<close>

datatype FeeType =
  CryptocurrencyTradeFee
  | CryptocurrencyWithdrawalFee
  | CyptocurrencyDepositFee
  | InternationalBankDepositFee
  | InternationalBankWithdrawalFee

datatype TransactionType = WireTransfer | OtherTransactionType string

record FeeBuilder =
  Fee_Amount :: float64
  Fee_Delimiter :: string
  Fee_FeeType :: FeeType
  Fee_FirstCurrency :: string
  Fee_SecondCurrency :: string
  Fee_IsMaker :: bool
  Fee_PurchasePrice :: float64
  Fee_CurrencyItem :: string
  Fee_BankTransactionType :: TransactionType

text \<open>
  Modelled from the spec: \<^verbatim>\<open>OKEX.GetFee\<close> is not among the sources, only its test is. The
  spec gives its policy by category. Trade fee: a base rate, reduced for a maker, multiplied
  by amount times price, and 0 if the price is not positive. Withdrawal fee: a flat rate per
  currency, and 0 for an unknown currency. Deposit and bank transfer fees: 0. It never
  returns an error. The two rates are those the test expects, 0.0015 and 0.001 for a maker;
  the table of withdrawal rates is a parameter. (For a negative amount at a positive price
  the product is negative, where the spec also asks for a fee that is not negative; nothing
  stated below is about such a request.)
\<close>

definition OKEX_GetFee :: "(string \<rightharpoonup> float64) \<Rightarrow> FeeBuilder \<Rightarrow> float64 \<times> error option" where
  "OKEX_GetFee withdrawalFees feeBuilder =
     (case Fee_FeeType feeBuilder of
        CryptocurrencyTradeFee \<Rightarrow>
          (if Fee_PurchasePrice feeBuilder \<le> 0 then 0
           else (if Fee_IsMaker feeBuilder then 0.001 else 0.0015)
                  * (Fee_Amount feeBuilder * Fee_PurchasePrice feeBuilder))
      | CryptocurrencyWithdrawalFee \<Rightarrow>
          (case withdrawalFees (Fee_FirstCurrency feeBuilder) of Some rate \<Rightarrow> rate | None \<Rightarrow> 0)
      | CyptocurrencyDepositFee \<Rightarrow> 0
      | InternationalBankDepositFee \<Rightarrow> 0
      | InternationalBankWithdrawalFee \<Rightarrow> 0,
      None)"

section \<open>Notions used in the statements\<close>

text \<open>
  The key under which \<^verbatim>\<open>LocalBitcoins.CancelAllOrders\<close> deletes an advertisement and
  records its failure; the batch request \<^verbatim>\<open>HUOBIHADAX.CancelAllOrders\<close> issues for a pair;
  and the error, if any, with which that wrapper leaves its loop on a batch response.
\<close>

definition DeleteAd_key :: "AdListItem \<Rightarrow> string" where
  "DeleteAd_key = (\<lambda>ad. FormatInt (Data_AdID ad))"

definition batch_request :: "HUOBIHADAX \<Rightarrow> string \<Rightarrow> CurrencyPair \<Rightarrow> hb_request" where
  "batch_request h accountID currency =
     CancelOpenOrdersBatch_request accountID (FormatExchangeCurrency h currency AssetTypeSpot)"

definition batch_error :: "CancelOpenOrdersBatch_response \<times> string option \<Rightarrow> error option" where
  "batch_error r =
     (case snd r of
        Some e \<Rightarrow> Some (ErrorString e)
      | None \<Rightarrow>
          if Data_FailedCount (fst r) > 0
          then Some (ErrorString (FormatInt (Data_FailedCount (fst r)) @ '' orders failed to cancel''))
          else None)"

text \<open>
  The ordering invariant of an order book snapshot: the prices of the bids do not increase
  and the prices of the asks do not decrease along the sequence.
\<close>

definition ordering_invariant :: "orderbook_Base \<Rightarrow> bool" where
  "ordering_invariant ob \<longleftrightarrow>
     sorted_wrt (\<lambda>x y. x \<ge> y) (map Item_Price (Base_Bids ob)) \<and>
     sorted_wrt (\<lambda>x y. x \<le> y) (map Item_Price (Base_Asks ob))"

section \<open>Example venues\<close>

text \<open>
  Concrete drivers and venues, on which the statements below are evaluated.
  \<open>listed_ad n\<close> is a listed advertisement with id \<open>n\<close> that carries the placeholder
  parameters of \<^verbatim>\<open>SubmitOrder\<close> for a pair quoted in USD and an amount of 100. The
  LocalBitcoins venue accepts every advertisement, returns the given listing, refuses to
  delete the advertisement 2, quotes USD only and sends an order book whose bids ascend in
  price. The HuobiHadax venue has one account, 7, accepts every order as order 42 and
  reports one failed order in the batch of the given symbol. The clock of the example cache
  shows 10, and a snapshot may be 5 old.
\<close>

definition ToString_example :: "OrderSide \<Rightarrow> string" where
  "ToString_example side = (case side of Buy \<Rightarrow> ''BUY'' | Sell \<Rightarrow> ''SELL'' | OtherSide s \<Rightarrow> s)"

definition BTCUSD :: CurrencyPair where
  "BTCUSD = \<lparr>Delimiter = ''-'', FirstCurrency = ''BTC'', SecondCurrency = ''USD''\<rparr>"

definition listed_ad :: "int \<Rightarrow> AdListItem" where
  "listed_ad n =
     \<lparr>Data_PriceEquation = ''USD_in_AUD'', Data_Lat = 1, Data_Lon = 1, Data_City = ''City'',
      Data_Location = ''Location'', Data_CountryCode = ''US'', Data_Currency = ''USD'',
      Data_AccountInfo = ''-'', Data_BankName = ''Bank'', Data_SMSVerficationRequired = True,
      Data_TrackMaxAmount = True, Data_RequireTrustedByAdvertiser = True,
      Data_OnlineProvider = '''', Data_TradeType = '''', Data_MinAmount = ''100'',
      Data_AdID = n\<rparr>"

definition lbc_venue_listing :: "AdListItem list \<Rightarrow> string option \<Rightarrow> lbc_venue" where
  "lbc_venue_listing ads err =
     \<lparr>CreateAd = (\<lambda>sent params. None),
      Getads = (\<lambda>sent. (\<lparr>AdList = ads\<rparr>, err)),
      DeleteAd = (\<lambda>sent adID. if adID = ''2'' then Some ''ad is locked'' else None),
      GetTicker = (\<lambda>sent. ([''USD'' \<mapsto> \<lparr>Avg24h = 100, VolumeBTC = 5\<rparr>], None)),
      GetOrderbook = (\<lambda>sent currency.
         (\<lparr>Bids = [\<lparr>Price = 1, Amount = 2\<rparr>, \<lparr>Price = 2, Amount = 2\<rparr>],
           Asks = [\<lparr>Price = 3, Amount = 3\<rparr>, \<lparr>Price = 4, Amount = 8\<rparr>]\<rparr>, None))\<rparr>"

definition LTCUSD :: CurrencyPair where
  "LTCUSD = \<lparr>Delimiter = ''-'', FirstCurrency = ''LTC'', SecondCurrency = ''USD''\<rparr>"

definition lbc_driver_example :: LocalBitcoins where
  "lbc_driver_example =
     \<lparr>Name = ''LocalBitcoins'',
      GetEnabledPairs = (\<lambda>a. if a = AssetTypeSpot then [BTCUSD] else []),
      FormatExchangeCurrency = (\<lambda>p a. FirstCurrency p @ SecondCurrency p)\<rparr>"

definition empty_cache :: "'a market_data_cache" where
  "empty_cache = \<lparr>entries = Map.empty, clock = 10, staleness_threshold = 5\<rparr>"

definition hb_driver_example :: "string \<Rightarrow> HUOBIHADAX" where
  "hb_driver_example accountID =
     \<lparr>Name = ''HuobiHadax'',
      GetEnabledPairs = (\<lambda>a. if a = AssetTypeSpot then [BTCUSD, LTCUSD] else []),
      FormatExchangeCurrency = (\<lambda>p a. FirstCurrency p @ SecondCurrency p),
      AccountID = accountID\<rparr>"

definition DetailMerged_example :: DetailMerged where
  "DetailMerged_example = \<lparr>Detail_Low = 1, Detail_Close = 2, Detail_Volume = 3, Detail_High = 4,
     Detail_Ask = [5], Detail_Bid = [6]\<rparr>"

definition hb_venue_example :: "string \<Rightarrow> hb_venue" where
  "hb_venue_example failing =
     \<lparr>GetAccounts = (\<lambda>sent. ([\<lparr>ID = 7\<rparr>], None)),
      SpotNewOrder = (\<lambda>sent params. (42, None)),
      CancelOpenOrdersBatch = (\<lambda>sent accountID symbol.
         (\<lparr>Data_FailedCount = (if symbol = failing then 1 else 0)\<rparr>, None)),
      GetMarketDetailMerged = (\<lambda>sent symbol. (DetailMerged_example, None)),
      GetDepth = (\<lambda>sent symbol step.
         (\<lparr>Depth_Bids = [[2, 1], [1, 1]], Depth_Asks = [[3, 1], [4, 1]]\<rparr>, None))\<rparr>"

text \<open>
  Stand-ins for the two functions that \<^verbatim>\<open>HUOBIHADAX.SubmitOrder\<close> takes from outside.
  \<open>Symbol_of_example\<close> joins the pair with its delimiter, in lower case.
  \<open>ParseInt_decimal\<close> gives the answers of \<^verbatim>\<open>strconv.ParseInt(s, 0, 64)\<close> on a decimal numeral
  with an optional sign and no leading zero, as the library documents them: the value, or
  the nearest bound of \<^verbatim>\<open>int64\<close> with a range error when the value does not fit; and, for a
  text without digits or with another character, 0 with a syntax error. (It knows no base
  prefix and no underscore, so it is the library's function on those texts only.)
\<close>

definition ascii_lower :: "char \<Rightarrow> char" where
  "ascii_lower c =
     (case map_of (zip ''ABCDEFGHIJKLMNOPQRSTUVWXYZ'' ''abcdefghijklmnopqrstuvwxyz'') c of
        Some d \<Rightarrow> d
      | None \<Rightarrow> c)"

definition Symbol_of_example :: "CurrencyPair \<Rightarrow> string" where
  "Symbol_of_example p = map ascii_lower (FirstCurrency p @ Delimiter p @ SecondCurrency p)"

fun decimal_value :: "string \<Rightarrow> nat \<Rightarrow> nat option" where
  "decimal_value [] n = Some n"
| "decimal_value (c # cs) n =
     (case map_of (zip ''0123456789'' [0, 1, 2, 3, 4, 5, 6, 7, 8, 9]) c of
        Some d \<Rightarrow> decimal_value cs (10 * n + d)
      | None \<Rightarrow> None)"

definition ParseInt_decimal :: "string \<Rightarrow> int \<times> error option" where
  "ParseInt_decimal s =
     (let neg = (s \<noteq> [] \<and> hd s = CHR ''-'');
          digits = (if s \<noteq> [] \<and> (hd s = CHR ''+'' \<or> hd s = CHR ''-'') then tl s else s)
      in if digits = [] then (0, Some (ErrorString ''invalid syntax''))
         else case decimal_value digits 0 of
                None \<Rightarrow> (0, Some (ErrorString ''invalid syntax''))
              | Some m \<Rightarrow>
                  if \<not> neg \<and> m \<ge> 2 ^ 63 then (2 ^ 63 - 1, Some (ErrorString ''value out of range''))
                  else if neg \<and> m > 2 ^ 63 then (- (2 ^ 63), Some (ErrorString ''value out of range''))
                  else (if neg then - int m else int m, None))"



text \<open>
  The fee request of the OKEX test (\<^verbatim>\<open>setFeeBuilder\<close>), and a table of withdrawal rates with
  the one rate the test expects.
\<close>

definition setFeeBuilder :: FeeBuilder where
  "setFeeBuilder =
     \<lparr>Fee_Amount = 1,
      Fee_Delimiter = ''-'',
      Fee_FeeType = CryptocurrencyTradeFee,
      Fee_FirstCurrency = ''LTC'',
      Fee_SecondCurrency = ''BTC'',
      Fee_IsMaker = False,
      Fee_PurchasePrice = 1,
      Fee_CurrencyItem = ''USD'',
      Fee_BankTransactionType = WireTransfer\<rparr>"

definition withdrawalFees_example :: "string \<rightharpoonup> float64" where
  "withdrawalFees_example = [''LTC'' \<mapsto> 0.001]"

section \<open>Properties\<close>

subsection \<open>Operations without a venue equivalent\<close>

text \<open>
  Claim C6, as amended. Of the unsupported LocalBitcoins operations only the funding history
  returns \<open>ErrFunctionNotSupported\<close>. The deposit address lookup, the three withdrawals and
  the websocket accessor return the other sentinel, \<open>ErrNotYetImplemented\<close>, with an empty
  value, whatever their arguments; the two sentinels are different errors.
\<close>

theorem unsupported_operations_sentinels:
  "LocalBitcoins_GetFundingHistory = ([], Some ErrFunctionNotSupported)
   \<and> LocalBitcoins_GetDepositAddress c = ('''', Some ErrNotYetImplemented)
   \<and> LocalBitcoins_WithdrawCryptocurrencyFunds a c x = ('''', Some ErrNotYetImplemented)
   \<and> LocalBitcoins_WithdrawFiatFunds c x = ('''', Some ErrNotYetImplemented)
   \<and> LocalBitcoins_WithdrawFiatFundsToInternationalBank c x = ('''', Some ErrNotYetImplemented)
   \<and> LocalBitcoins_GetWebsocket = (None, Some ErrNotYetImplemented)
   \<and> ErrNotYetImplemented \<noteq> ErrFunctionNotSupported"
  by (simp add: LocalBitcoins_GetFundingHistory_def LocalBitcoins_GetDepositAddress_def
      LocalBitcoins_WithdrawCryptocurrencyFunds_def LocalBitcoins_WithdrawFiatFunds_def
      LocalBitcoins_WithdrawFiatFundsToInternationalBank_def LocalBitcoins_GetWebsocket_def)

text \<open>
  Claim C6 as stated fails: the deposit address lookup for BTC does not return the
  not-supported error, which is what the funding history returns.
\<close>

theorem deposit_address_not_the_not_supported_error:
  "snd (LocalBitcoins_GetDepositAddress ''BTC'') \<noteq> Some ErrFunctionNotSupported"
  by (simp add: LocalBitcoins_GetDepositAddress_def)

subsection \<open>Printing integers\<close>

lemma FormatUint_nonempty: "FormatUint n \<noteq> []"
  by (subst FormatUint.simps) simp

lemma FormatInt_nonempty: "FormatInt i \<noteq> []"
  by (simp add: FormatInt_def FormatUint_nonempty)

lemma FormatInt_small:
  "FormatInt 1 = ''1''" "FormatInt 2 = ''2''" "FormatInt 3 = ''3''" "FormatInt 7 = ''7''"
  "FormatInt 42 = ''42''"
  by (simp_all add: FormatInt_def FormatUint.simps digit_def)

subsection \<open>LocalBitcoins: SubmitOrder\<close>

text \<open>
  The scan returns the id of the last matching advertisement, or the initial value when
  none matches.
\<close>

lemma SubmitOrder_scan_filter:
  "SubmitOrder_scan params ads adID =
     (if filter (ad_matches params) ads = [] then adID
      else FormatInt (Data_AdID (last (filter (ad_matches params) ads))))"
  by (induction ads arbitrary: adID) auto

lemma SubmitOrder_after_CreateAd:
  assumes "CreateAd v sent (SubmitOrder_params ts p side amount) = None"
  shows "LocalBitcoins_SubmitOrder ts v sent p side ot amount price cid =
     (let params = SubmitOrder_params ts p side amount;
          sent1 = sent @ [CreateAd_request params];
          ms = filter (ad_matches params) (AdList (fst (Getads v sent1)))
      in ((if ms = []
           then (\<lparr>IsOrderPlaced = True, OrderID = ''''\<rparr>,
                 Some (ErrorString ''Ad placed, but not found via API''))
           else (\<lparr>IsOrderPlaced = True, OrderID = FormatInt (Data_AdID (last ms))\<rparr>,
                 map_option ErrorString (snd (Getads v sent1)))),
          sent1 @ [Getads_request]))"
  using assms
  by (simp add: LocalBitcoins_SubmitOrder_def Let_def SubmitOrder_scan_filter FormatInt_nonempty
      zero_SubmitOrderResponse_def split: prod.splits)

lemma listed_ad_matches:
  "ad_matches (SubmitOrder_params ToString_example BTCUSD Buy 100) (listed_ad n)"
  by (simp add: ad_matches_def SubmitOrder_params_def listed_ad_def BTCUSD_def Round_int_def
      FormatInt_def FormatUint.simps digit_def)

text \<open>
  Claim C1, as amended. Once \<^verbatim>\<open>CreateAd\<close> has succeeded, \<^verbatim>\<open>SubmitOrder\<close> issues exactly one
  listing request and compares every listed advertisement with the submitted parameters.
  If none matches, it returns the error "Ad placed, but not found via API" with an empty
  order id. If one or more match, it returns the id of the last match in listing order as
  the order id, together with the error of the listing request, if any: several matches
  are not reported as a failure.
\<close>

theorem SubmitOrder_resolves_last_match:
  assumes "CreateAd v sent (SubmitOrder_params ts p side amount) = None"
  shows "LocalBitcoins_SubmitOrder ts v sent p side ot amount price cid =
     (let params = SubmitOrder_params ts p side amount;
          sent1 = sent @ [CreateAd_request params];
          ms = filter (ad_matches params) (AdList (fst (Getads v sent1)))
      in ((if ms = []
           then (\<lparr>IsOrderPlaced = True, OrderID = ''''\<rparr>,
                 Some (ErrorString ''Ad placed, but not found via API''))
           else (\<lparr>IsOrderPlaced = True, OrderID = FormatInt (Data_AdID (last ms))\<rparr>,
                 map_option ErrorString (snd (Getads v sent1)))),
          sent1 @ [Getads_request]))"
  using assms by (rule SubmitOrder_after_CreateAd)

text \<open>
  Witness for C1: one listed advertisement, 7, matches and is resolved.
\<close>

theorem SubmitOrder_resolves_last_match_witness:
  "fst (LocalBitcoins_SubmitOrder ToString_example (lbc_venue_listing [listed_ad 7] None) []
          BTCUSD Buy Limit 100 1 ''client'')
     = (\<lparr>IsOrderPlaced = True, OrderID = ''7''\<rparr>, None)"
proof -
  have c: "CreateAd (lbc_venue_listing [listed_ad 7] None) []
             (SubmitOrder_params ToString_example BTCUSD Buy 100) = None"
    by (simp add: lbc_venue_listing_def)
  have i: "FormatInt (Data_AdID (listed_ad 7)) = ''7''"
    by (simp add: listed_ad_def FormatInt_def FormatUint.simps digit_def)
  show ?thesis
    using SubmitOrder_resolves_last_match [OF c, of Limit 1 "''client''"]
    by (simp add: Let_def lbc_venue_listing_def listed_ad_matches i)
qed

text \<open>
  Claim C1 as stated fails: with two listed advertisements that both match the submitted
  parameters, the call reports no failure and resolves the identifier of the second.
\<close>

theorem SubmitOrder_two_matches_resolved:
  "length (filter (ad_matches (SubmitOrder_params ToString_example BTCUSD Buy 100))
             [listed_ad 1, listed_ad 2]) = 2
   \<and> fst (LocalBitcoins_SubmitOrder ToString_example
             (lbc_venue_listing [listed_ad 1, listed_ad 2] None) []
             BTCUSD Buy Limit 100 1 ''client'')
       = (\<lparr>IsOrderPlaced = True, OrderID = ''2''\<rparr>, None)"
proof -
  have i: "FormatInt (Data_AdID (listed_ad 2)) = ''2''"
    by (simp add: listed_ad_def FormatInt_def FormatUint.simps digit_def)
  show ?thesis
    by (simp add: SubmitOrder_after_CreateAd lbc_venue_listing_def Let_def listed_ad_matches i)
qed

text \<open>
  Claim C10, as amended. Once \<^verbatim>\<open>CreateAd\<close> has succeeded, the response has
  \<open>IsOrderPlaced = True\<close> whatever follows. If no advertisement of the listing matches (which
  includes a failed listing that carries no matching advertisement), the error returned is
  "Ad placed, but not found via API", in place of any error of the listing request. If the
  listing request failed and its result still carries a matching advertisement, the order
  id is resolved to the last match and the error returned is the error of the listing
  request itself. Either way a failed listing ends in an error that is not nil, so a
  response can have \<open>IsOrderPlaced = True\<close> next to an error.
\<close>

theorem SubmitOrder_placed_with_error:
  assumes "CreateAd v sent (SubmitOrder_params ts p side amount) = None"
  shows "IsOrderPlaced (fst (fst (LocalBitcoins_SubmitOrder ts v sent p side ot amount price cid)))
     \<and> (filter (ad_matches (SubmitOrder_params ts p side amount))
           (AdList (fst (Getads v (sent @ [CreateAd_request (SubmitOrder_params ts p side amount)]))))
          = [] \<longrightarrow>
        fst (LocalBitcoins_SubmitOrder ts v sent p side ot amount price cid)
          = (\<lparr>IsOrderPlaced = True, OrderID = ''''\<rparr>,
             Some (ErrorString ''Ad placed, but not found via API'')))
     \<and> (\<forall>e. snd (Getads v (sent @ [CreateAd_request (SubmitOrder_params ts p side amount)]))
               = Some e
             \<and> filter (ad_matches (SubmitOrder_params ts p side amount))
                 (AdList (fst (Getads v
                    (sent @ [CreateAd_request (SubmitOrder_params ts p side amount)])))) \<noteq> []
          \<longrightarrow>
        fst (LocalBitcoins_SubmitOrder ts v sent p side ot amount price cid)
          = (\<lparr>IsOrderPlaced = True,
              OrderID = FormatInt (Data_AdID (last
                (filter (ad_matches (SubmitOrder_params ts p side amount))
                   (AdList (fst (Getads v
                      (sent @ [CreateAd_request (SubmitOrder_params ts p side amount)])))))))\<rparr>,
             Some (ErrorString e)))
     \<and> (snd (Getads v (sent @ [CreateAd_request (SubmitOrder_params ts p side amount)])) \<noteq> None
          \<longrightarrow>
        snd (fst (LocalBitcoins_SubmitOrder ts v sent p side ot amount price cid)) \<noteq> None)"
  by (auto simp add: SubmitOrder_after_CreateAd [OF assms] Let_def)

text \<open>
  Witness for C10: a listing request that times out and returns no advertisement ends in
  "Ad placed, but not found via API"; one that times out and still returns the matching
  advertisement 7 ends in the order id 7 next to the timeout.
\<close>

theorem SubmitOrder_placed_with_error_witness:
  "fst (LocalBitcoins_SubmitOrder ToString_example (lbc_venue_listing [] (Some ''timeout'')) []
          BTCUSD Sell Market 100 1 ''client'')
     = (\<lparr>IsOrderPlaced = True, OrderID = ''''\<rparr>,
        Some (ErrorString ''Ad placed, but not found via API''))
   \<and> fst (LocalBitcoins_SubmitOrder ToString_example
            (lbc_venue_listing [listed_ad 7] (Some ''timeout'')) []
            BTCUSD Buy Market 100 1 ''client'')
     = (\<lparr>IsOrderPlaced = True, OrderID = ''7''\<rparr>, Some (ErrorString ''timeout''))"
proof -
  have c: "CreateAd (lbc_venue_listing [] (Some ''timeout'')) []
             (SubmitOrder_params ToString_example BTCUSD Sell 100) = None"
    by (simp add: lbc_venue_listing_def)
  have a: "fst (LocalBitcoins_SubmitOrder ToString_example
                  (lbc_venue_listing [] (Some ''timeout'')) []
                  BTCUSD Sell Market 100 1 ''client'')
     = (\<lparr>IsOrderPlaced = True, OrderID = ''''\<rparr>,
        Some (ErrorString ''Ad placed, but not found via API''))"
    using SubmitOrder_placed_with_error [OF c, of Market 1 "''client''"]
    by (simp add: lbc_venue_listing_def)
  have c': "CreateAd (lbc_venue_listing [listed_ad 7] (Some ''timeout'')) []
             (SubmitOrder_params ToString_example BTCUSD Buy 100) = None"
    by (simp add: lbc_venue_listing_def)
  have i: "FormatInt (Data_AdID (listed_ad 7)) = ''7''"
    by (simp add: listed_ad_def FormatInt_small)
  have b: "fst (LocalBitcoins_SubmitOrder ToString_example
                  (lbc_venue_listing [listed_ad 7] (Some ''timeout'')) []
                  BTCUSD Buy Market 100 1 ''client'')
     = (\<lparr>IsOrderPlaced = True, OrderID = ''7''\<rparr>, Some (ErrorString ''timeout''))"
    using SubmitOrder_placed_with_error [OF c', of Market 1 "''client''"]
    by (simp add: lbc_venue_listing_def listed_ad_matches i)
  from a b show ?thesis by blast
qed

text \<open>
  Claim C10 as stated fails: when the listing request fails and its result still carries an
  advertisement that matches, the error returned is the error of the listing request, not
  "Ad placed, but not found via API", and the order id is resolved.
\<close>

theorem SubmitOrder_failed_listing_with_match:
  "CreateAd (lbc_venue_listing [listed_ad 7] (Some ''timeout'')) []
       (SubmitOrder_params ToString_example BTCUSD Buy 100) = None
   \<and> snd (Getads (lbc_venue_listing [listed_ad 7] (Some ''timeout''))
            [CreateAd_request (SubmitOrder_params ToString_example BTCUSD Buy 100)])
       = Some ''timeout''
   \<and> fst (LocalBitcoins_SubmitOrder ToString_example
            (lbc_venue_listing [listed_ad 7] (Some ''timeout'')) []
            BTCUSD Buy Market 100 1 ''client'')
       = (\<lparr>IsOrderPlaced = True, OrderID = ''7''\<rparr>, Some (ErrorString ''timeout''))
   \<and> snd (fst (LocalBitcoins_SubmitOrder ToString_example
            (lbc_venue_listing [listed_ad 7] (Some ''timeout'')) []
            BTCUSD Buy Market 100 1 ''client''))
       \<noteq> Some (ErrorString ''Ad placed, but not found via API'')"
proof -
  have i: "FormatInt (Data_AdID (listed_ad 7)) = ''7''"
    by (simp add: listed_ad_def FormatInt_small)
  show ?thesis
    by (simp add: SubmitOrder_after_CreateAd lbc_venue_listing_def Let_def listed_ad_matches i)
qed

subsection \<open>CancelAllOrders\<close>

lemma CancelAllOrders_loop_sent:
  "snd (CancelAllOrders_loop v ads sent status) =
     sent @ map DeleteAd_request (map DeleteAd_key ads)"
  unfolding DeleteAd_key_def
  by (induction ads arbitrary: sent status) (simp_all add: Let_def)

lemma CancelAllOrders_loop_keeps:
  "status k \<noteq> None \<Longrightarrow> fst (CancelAllOrders_loop v ads sent status) k \<noteq> None"
  by (induction ads arbitrary: sent status) (simp_all add: Let_def split: option.splits)

lemma CancelAllOrders_loop_records:
  assumes "i < length ads"
    and "DeleteAd v (sent @ map DeleteAd_request (take i (map DeleteAd_key ads)))
           (map DeleteAd_key ads ! i) \<noteq> None"
  shows "fst (CancelAllOrders_loop v ads sent status) (map DeleteAd_key ads ! i) \<noteq> None"
  using assms unfolding DeleteAd_key_def
proof (induction ads arbitrary: i sent status)
  case Nil
  then show ?case by simp
next
  case (Cons ad rest)
  show ?case
  proof (cases i)
    case 0
    with Cons.prems obtain e where e: "DeleteAd v sent (FormatInt (Data_AdID ad)) = Some e"
      by auto
    have "fst (CancelAllOrders_loop v rest (sent @ [DeleteAd_request (FormatInt (Data_AdID ad))])
                (status(FormatInt (Data_AdID ad) \<mapsto> e))) (FormatInt (Data_AdID ad)) \<noteq> None"
      by (rule CancelAllOrders_loop_keeps) simp
    with 0 e show ?thesis
      by (simp add: Let_def)
  next
    case (Suc j)
    with Cons.prems have j: "j < length rest"
      and d: "DeleteAd v ((sent @ [DeleteAd_request (FormatInt (Data_AdID ad))])
                @ map DeleteAd_request (take j (map (\<lambda>ad. FormatInt (Data_AdID ad)) rest)))
               (map (\<lambda>ad. FormatInt (Data_AdID ad)) rest ! j) \<noteq> None"
      by simp_all
    from Cons.IH [OF j d] Suc j show ?thesis
      by (simp add: Let_def)
  qed
qed

lemma CancelAllOrders_loop_sound:
  assumes "fst (CancelAllOrders_loop v ads sent status) k = Some e"
  shows "status k = Some e \<or>
         (\<exists>i<length ads. map DeleteAd_key ads ! i = k \<and>
            DeleteAd v (sent @ map DeleteAd_request (take i (map DeleteAd_key ads))) k = Some e)"
  using assms unfolding DeleteAd_key_def
proof (induction ads arbitrary: sent status)
  case Nil
  then show ?case by simp
next
  case (Cons ad rest)
  let ?key = "\<lambda>ad. FormatInt (Data_AdID ad)"
  let ?k0 = "FormatInt (Data_AdID ad)"
  let ?status1 = "case DeleteAd v sent ?k0 of None \<Rightarrow> status | Some e \<Rightarrow> status(?k0 \<mapsto> e)"
  from Cons.prems
  have "fst (CancelAllOrders_loop v rest (sent @ [DeleteAd_request ?k0]) ?status1) k = Some e"
    by (simp add: Let_def)
  from Cons.IH [OF this]
  consider (old) "?status1 k = Some e"
    | (later) i where "i < length rest" "map ?key rest ! i = k"
        "DeleteAd v ((sent @ [DeleteAd_request ?k0])
           @ map DeleteAd_request (take i (map ?key rest))) k = Some e"
    by blast
  then show ?case
  proof cases
    case old
    then have "status k = Some e \<or> (?k0 = k \<and> DeleteAd v sent k = Some e)"
      by (auto split: option.splits if_splits)
    then show ?thesis
    proof
      assume "status k = Some e"
      then show ?thesis by simp
    next
      assume "?k0 = k \<and> DeleteAd v sent k = Some e"
      then have "0 < length (ad # rest) \<and> map ?key (ad # rest) ! 0 = k \<and>
          DeleteAd v (sent @ map DeleteAd_request (take 0 (map ?key (ad # rest)))) k = Some e"
        by simp
      then show ?thesis by blast
    qed
  next
    case later
    then have "Suc i < length (ad # rest) \<and> map ?key (ad # rest) ! Suc i = k \<and>
        DeleteAd v (sent @ map DeleteAd_request (take (Suc i) (map ?key (ad # rest)))) k = Some e"
      by simp
    then show ?thesis by blast
  qed
qed

lemma LocalBitcoins_CancelAllOrders_listed:
  assumes "Getads v sent = (ads, None)"
  shows "LocalBitcoins_CancelAllOrders v sent =
     ((\<lparr>OrderStatus = fst (CancelAllOrders_loop v (AdList ads) (sent @ [Getads_request]) Map.empty)\<rparr>,
       None),
      sent @ Getads_request # map DeleteAd_request (map DeleteAd_key (AdList ads)))"
  using assms CancelAllOrders_loop_sent [of v "AdList ads" "sent @ [Getads_request]" Map.empty]
  by (simp add: LocalBitcoins_CancelAllOrders_def Let_def case_prod_beta prod_eq_iff)

lemma LocalBitcoins_CancelAllOrders_each_attempted:
  assumes "Getads v sent = (ads, None)"
  shows "snd (fst (LocalBitcoins_CancelAllOrders v sent)) = None
     \<and> snd (LocalBitcoins_CancelAllOrders v sent)
         = sent @ Getads_request # map DeleteAd_request (map DeleteAd_key (AdList ads))
     \<and> (\<forall>i<length (AdList ads).
          DeleteAd v (sent @ Getads_request #
                        map DeleteAd_request (take i (map DeleteAd_key (AdList ads))))
            (map DeleteAd_key (AdList ads) ! i) \<noteq> None \<longrightarrow>
          OrderStatus (fst (fst (LocalBitcoins_CancelAllOrders v sent)))
            (map DeleteAd_key (AdList ads) ! i) \<noteq> None)
     \<and> (\<forall>k e. OrderStatus (fst (fst (LocalBitcoins_CancelAllOrders v sent))) k = Some e \<longrightarrow>
          (\<exists>i<length (AdList ads). map DeleteAd_key (AdList ads) ! i = k \<and>
             DeleteAd v (sent @ Getads_request #
                           map DeleteAd_request (take i (map DeleteAd_key (AdList ads)))) k = Some e))"
proof -
  have rec: "\<And>i. i < length (AdList ads) \<Longrightarrow>
      DeleteAd v (sent @ Getads_request #
                    map DeleteAd_request (take i (map DeleteAd_key (AdList ads))))
        (map DeleteAd_key (AdList ads) ! i) \<noteq> None \<Longrightarrow>
      fst (CancelAllOrders_loop v (AdList ads) (sent @ [Getads_request]) Map.empty)
        (map DeleteAd_key (AdList ads) ! i) \<noteq> None"
    using CancelAllOrders_loop_records [of _ "AdList ads" v "sent @ [Getads_request]" Map.empty]
    by simp
  have snd: "\<And>k e. fst (CancelAllOrders_loop v (AdList ads) (sent @ [Getads_request]) Map.empty) k
        = Some e \<Longrightarrow>
      (\<exists>i<length (AdList ads). map DeleteAd_key (AdList ads) ! i = k \<and>
         DeleteAd v (sent @ Getads_request #
                       map DeleteAd_request (take i (map DeleteAd_key (AdList ads)))) k = Some e)"
    using CancelAllOrders_loop_sound [of v "AdList ads" "sent @ [Getads_request]" Map.empty]
    by simp
  show ?thesis
    unfolding LocalBitcoins_CancelAllOrders_listed [OF assms]
    using rec snd by simp
qed

lemma HUOBIHADAX_CancelAllOrders_loop_aborts:
  assumes "j < length pairs"
    and "\<forall>i<j. batch_error (CancelOpenOrdersBatch v (sent @ map (batch_request h a) (take i pairs)) a
                  (FormatExchangeCurrency h (pairs ! i) AssetTypeSpot)) = None"
    and "batch_error (CancelOpenOrdersBatch v (sent @ map (batch_request h a) (take j pairs)) a
                  (FormatExchangeCurrency h (pairs ! j) AssetTypeSpot)) = Some e"
  shows "HUOBIHADAX_CancelAllOrders_loop v h a pairs sent =
           (Some e, sent @ map (batch_request h a) (take (Suc j) pairs))"
  using assms
proof (induction pairs arbitrary: j sent)
  case Nil
  then show ?case by simp
next
  case (Cons c rest)
  show ?case
  proof (cases j)
    case 0
    with Cons.prems(3) show ?thesis
      by (auto simp add: Let_def batch_error_def batch_request_def split: prod.splits option.splits if_splits)
  next
    case (Suc j')
    from Cons.prems(2) Suc
    have first: "batch_error (CancelOpenOrdersBatch v sent a (FormatExchangeCurrency h c AssetTypeSpot)) = None"
      by (metis (no_types, lifting) append_Nil2 list.simps(8) nth_Cons_0 take_0 zero_less_Suc)
    have j': "j' < length rest" using Cons.prems(1) Suc by simp
    have ok: "\<forall>i<j'. batch_error (CancelOpenOrdersBatch v
                 ((sent @ [batch_request h a c]) @ map (batch_request h a) (take i rest)) a
                 (FormatExchangeCurrency h (rest ! i) AssetTypeSpot)) = None"
    proof (intro allI impI)
      fix i assume "i < j'"
      then have "Suc i < j" using Suc by simp
      from Cons.prems(2) [rule_format, OF this] show "batch_error (CancelOpenOrdersBatch v
                 ((sent @ [batch_request h a c]) @ map (batch_request h a) (take i rest)) a
                 (FormatExchangeCurrency h (rest ! i) AssetTypeSpot)) = None"
        by simp
    qed
    have bad: "batch_error (CancelOpenOrdersBatch v
                 ((sent @ [batch_request h a c]) @ map (batch_request h a) (take j' rest)) a
                 (FormatExchangeCurrency h (rest ! j') AssetTypeSpot)) = Some e"
      using Cons.prems(3) Suc by simp
    from Cons.IH [OF j' ok bad] first Suc show ?thesis
      by (auto simp add: Let_def batch_error_def batch_request_def split: prod.splits option.splits if_splits)
  qed
qed

text \<open>
  Claim C2, as amended. \<^verbatim>\<open>LocalBitcoins.CancelAllOrders\<close>, once its listing request has
  succeeded, returns no error; it issues one \<^verbatim>\<open>DeleteAd\<close> request for every listed
  advertisement, in listing order, whatever the earlier requests answered; every failed
  request leaves an entry under the printed id of its advertisement in the status map; and
  every entry of the map is the error text of a failed request for that id.
  \<^verbatim>\<open>HUOBIHADAX.CancelAllOrders\<close> works by batches instead: it issues one batch request per
  enabled spot pair and, at the first pair whose request fails or reports failed orders
  (pair \<open>j\<close>), returns that error with an empty status map, the later pairs not being
  requested.
\<close>

theorem CancelAllOrders_partial_failure:
  "(Getads v sent = (ads, None) \<longrightarrow>
      snd (fst (LocalBitcoins_CancelAllOrders v sent)) = None
      \<and> snd (LocalBitcoins_CancelAllOrders v sent)
          = sent @ Getads_request # map DeleteAd_request (map DeleteAd_key (AdList ads))
      \<and> (\<forall>i<length (AdList ads).
           DeleteAd v (sent @ Getads_request #
                         map DeleteAd_request (take i (map DeleteAd_key (AdList ads))))
             (map DeleteAd_key (AdList ads) ! i) \<noteq> None \<longrightarrow>
           OrderStatus (fst (fst (LocalBitcoins_CancelAllOrders v sent)))
             (map DeleteAd_key (AdList ads) ! i) \<noteq> None)
      \<and> (\<forall>k e. OrderStatus (fst (fst (LocalBitcoins_CancelAllOrders v sent))) k = Some e \<longrightarrow>
           (\<exists>i<length (AdList ads). map DeleteAd_key (AdList ads) ! i = k \<and>
              DeleteAd v (sent @ Getads_request #
                            map DeleteAd_request (take i (map DeleteAd_key (AdList ads)))) k = Some e)))
   \<and> (j < length (GetEnabledPairs h AssetTypeSpot)
       \<and> (\<forall>i<j. batch_error (CancelOpenOrdersBatch hv
                    (hsent @ map (batch_request h a) (take i (GetEnabledPairs h AssetTypeSpot))) a
                    (FormatExchangeCurrency h (GetEnabledPairs h AssetTypeSpot ! i) AssetTypeSpot))
                  = None)
       \<and> batch_error (CancelOpenOrdersBatch hv
                    (hsent @ map (batch_request h a) (take j (GetEnabledPairs h AssetTypeSpot))) a
                    (FormatExchangeCurrency h (GetEnabledPairs h AssetTypeSpot ! j) AssetTypeSpot))
                  = Some e' \<longrightarrow>
       HUOBIHADAX_CancelAllOrders hv h hsent a =
         ((\<lparr>OrderStatus = Map.empty\<rparr>, Some e'),
          hsent @ map (batch_request h a) (take (Suc j) (GetEnabledPairs h AssetTypeSpot))))"
proof (intro conjI impI)
  assume g: "Getads v sent = (ads, None)"
  note lb = LocalBitcoins_CancelAllOrders_each_attempted [OF g]
  from lb show "snd (fst (LocalBitcoins_CancelAllOrders v sent)) = None" by blast
  from lb show "snd (LocalBitcoins_CancelAllOrders v sent)
          = sent @ Getads_request # map DeleteAd_request (map DeleteAd_key (AdList ads))" by blast
  from lb show "\<forall>i<length (AdList ads).
           DeleteAd v (sent @ Getads_request #
                         map DeleteAd_request (take i (map DeleteAd_key (AdList ads))))
             (map DeleteAd_key (AdList ads) ! i) \<noteq> None \<longrightarrow>
           OrderStatus (fst (fst (LocalBitcoins_CancelAllOrders v sent)))
             (map DeleteAd_key (AdList ads) ! i) \<noteq> None" by blast
  from lb show "\<forall>k e. OrderStatus (fst (fst (LocalBitcoins_CancelAllOrders v sent))) k = Some e \<longrightarrow>
           (\<exists>i<length (AdList ads). map DeleteAd_key (AdList ads) ! i = k \<and>
              DeleteAd v (sent @ Getads_request #
                            map DeleteAd_request (take i (map DeleteAd_key (AdList ads)))) k = Some e)"
    by blast
next
  assume "j < length (GetEnabledPairs h AssetTypeSpot)
       \<and> (\<forall>i<j. batch_error (CancelOpenOrdersBatch hv
                    (hsent @ map (batch_request h a) (take i (GetEnabledPairs h AssetTypeSpot))) a
                    (FormatExchangeCurrency h (GetEnabledPairs h AssetTypeSpot ! i) AssetTypeSpot))
                  = None)
       \<and> batch_error (CancelOpenOrdersBatch hv
                    (hsent @ map (batch_request h a) (take j (GetEnabledPairs h AssetTypeSpot))) a
                    (FormatExchangeCurrency h (GetEnabledPairs h AssetTypeSpot ! j) AssetTypeSpot))
                  = Some e'"
  then have "HUOBIHADAX_CancelAllOrders_loop hv h a (GetEnabledPairs h AssetTypeSpot) hsent =
           (Some e', hsent @ map (batch_request h a) (take (Suc j) (GetEnabledPairs h AssetTypeSpot)))"
    by (intro HUOBIHADAX_CancelAllOrders_loop_aborts) blast+
  then show "HUOBIHADAX_CancelAllOrders hv h hsent a =
         ((\<lparr>OrderStatus = Map.empty\<rparr>, Some e'),
          hsent @ map (batch_request h a) (take (Suc j) (GetEnabledPairs h AssetTypeSpot)))"
    by (simp add: HUOBIHADAX_CancelAllOrders_def)
qed

text \<open>
  Witness for C2: of three listed advertisements the second cannot be deleted, and all
  three are attempted; of two enabled pairs the second batch reports a failed order.
\<close>

theorem CancelAllOrders_partial_failure_witness:
  "snd (fst (LocalBitcoins_CancelAllOrders
               (lbc_venue_listing [listed_ad 1, listed_ad 2, listed_ad 3] None) [])) = None
   \<and> snd (LocalBitcoins_CancelAllOrders
               (lbc_venue_listing [listed_ad 1, listed_ad 2, listed_ad 3] None) [])
       = [Getads_request, DeleteAd_request ''1'', DeleteAd_request ''2'', DeleteAd_request ''3'']
   \<and> OrderStatus (fst (fst (LocalBitcoins_CancelAllOrders
               (lbc_venue_listing [listed_ad 1, listed_ad 2, listed_ad 3] None) []))) ''2'' \<noteq> None
   \<and> HUOBIHADAX_CancelAllOrders (hb_venue_example ''LTCUSD'') (hb_driver_example '''') [] ''acct''
       = ((\<lparr>OrderStatus = Map.empty\<rparr>, Some (ErrorString ''1 orders failed to cancel'')),
          [CancelOpenOrdersBatch_request ''acct'' ''BTCUSD'',
           CancelOpenOrdersBatch_request ''acct'' ''LTCUSD''])"
proof -
  let ?v = "lbc_venue_listing [listed_ad 1, listed_ad 2, listed_ad 3] None"
  let ?ads = "\<lparr>AdList = [listed_ad 1, listed_ad 2, listed_ad 3]\<rparr>"
  have keys: "map DeleteAd_key (AdList ?ads) = [''1'', ''2'', ''3'']"
    by (simp add: DeleteAd_key_def listed_ad_def FormatInt_small)
  have g: "Getads ?v [] = (?ads, None)"
    by (simp add: lbc_venue_listing_def)
  have d: "DeleteAd ?v ([] @ Getads_request #
             map DeleteAd_request (take 1 (map DeleteAd_key (AdList ?ads))))
             (map DeleteAd_key (AdList ?ads) ! 1) \<noteq> None"
    by (simp add: DeleteAd_key_def listed_ad_def FormatInt_small lbc_venue_listing_def)
  have pairs: "GetEnabledPairs (hb_driver_example '''') AssetTypeSpot = [BTCUSD, LTCUSD]"
    by (simp add: hb_driver_example_def)
  have ok: "\<forall>i<1. batch_error (CancelOpenOrdersBatch (hb_venue_example ''LTCUSD'')
                    ([] @ map (batch_request (hb_driver_example '''') ''acct'')
                       (take i (GetEnabledPairs (hb_driver_example '''') AssetTypeSpot))) ''acct''
                    (FormatExchangeCurrency (hb_driver_example '''')
                       (GetEnabledPairs (hb_driver_example '''') AssetTypeSpot ! i) AssetTypeSpot))
                  = None"
    by (simp add: pairs) (simp add: batch_error_def hb_venue_example_def hb_driver_example_def
        BTCUSD_def)
  have bad: "batch_error (CancelOpenOrdersBatch (hb_venue_example ''LTCUSD'')
                    ([] @ map (batch_request (hb_driver_example '''') ''acct'')
                       (take 1 (GetEnabledPairs (hb_driver_example '''') AssetTypeSpot))) ''acct''
                    (FormatExchangeCurrency (hb_driver_example '''')
                       (GetEnabledPairs (hb_driver_example '''') AssetTypeSpot ! 1) AssetTypeSpot))
                  = Some (ErrorString ''1 orders failed to cancel'')"
    by (simp add: pairs) (simp add: batch_error_def hb_venue_example_def hb_driver_example_def
        LTCUSD_def FormatInt_small)
  note t = CancelAllOrders_partial_failure [of ?v "[]" ?ads 1 "hb_driver_example ''''"
      "hb_venue_example ''LTCUSD''" "[]" "''acct''" "ErrorString ''1 orders failed to cancel''"]
  from t g have a: "snd (fst (LocalBitcoins_CancelAllOrders ?v [])) = None" by blast
  from t g have b: "snd (LocalBitcoins_CancelAllOrders ?v [])
          = [] @ Getads_request # map DeleteAd_request (map DeleteAd_key (AdList ?ads))" by blast
  from t g have "\<forall>i<length (AdList ?ads).
           DeleteAd ?v ([] @ Getads_request #
                         map DeleteAd_request (take i (map DeleteAd_key (AdList ?ads))))
             (map DeleteAd_key (AdList ?ads) ! i) \<noteq> None \<longrightarrow>
           OrderStatus (fst (fst (LocalBitcoins_CancelAllOrders ?v [])))
             (map DeleteAd_key (AdList ?ads) ! i) \<noteq> None" by blast
  from this [rule_format, of 1] d
  have c: "OrderStatus (fst (fst (LocalBitcoins_CancelAllOrders ?v [])))
             (map DeleteAd_key (AdList ?ads) ! 1) \<noteq> None" by simp
  have k1: "map DeleteAd_key (AdList ?ads) ! 1 = ''2''"
    by (simp add: DeleteAd_key_def listed_ad_def FormatInt_small)
  from t ok bad pairs
  have h: "HUOBIHADAX_CancelAllOrders (hb_venue_example ''LTCUSD'') (hb_driver_example '''') []
             ''acct'' =
         ((\<lparr>OrderStatus = Map.empty\<rparr>, Some (ErrorString ''1 orders failed to cancel'')),
          [] @ map (batch_request (hb_driver_example '''') ''acct'')
                 (take (Suc 1) (GetEnabledPairs (hb_driver_example '''') AssetTypeSpot)))"
    by simp
  have reqs: "map (batch_request (hb_driver_example '''') ''acct'') [BTCUSD, LTCUSD]
     = [CancelOpenOrdersBatch_request ''acct'' ''BTCUSD'',
        CancelOpenOrdersBatch_request ''acct'' ''LTCUSD'']"
    by (simp add: batch_request_def hb_driver_example_def BTCUSD_def LTCUSD_def)
  from a b c [unfolded k1] h show ?thesis
    by (simp add: pairs)
      (simp add: DeleteAd_key_def listed_ad_def FormatInt_small batch_request_def
        hb_driver_example_def BTCUSD_def LTCUSD_def)
qed

text \<open>
  Claim C2 as stated fails for HuobiHadax: with two enabled pairs and one failed order in
  the batch of the first, the call returns an error, its status map is empty and the
  second pair is never requested.
\<close>

theorem HUOBIHADAX_CancelAllOrders_aborts_on_failure:
  "GetEnabledPairs (hb_driver_example '''') AssetTypeSpot = [BTCUSD, LTCUSD]
   \<and> HUOBIHADAX_CancelAllOrders (hb_venue_example ''BTCUSD'') (hb_driver_example '''') [] ''acct''
       = ((\<lparr>OrderStatus = Map.empty\<rparr>, Some (ErrorString ''1 orders failed to cancel'')),
          [CancelOpenOrdersBatch_request ''acct'' ''BTCUSD''])"
  by (simp add: HUOBIHADAX_CancelAllOrders_def hb_driver_example_def hb_venue_example_def
      BTCUSD_def LTCUSD_def Let_def FormatInt_small)

subsection \<open>HuobiHadax: GetAccountID\<close>

lemma HUOBIHADAX_GetAccountID_cases:
  "HUOBIHADAX_GetAccountID v h sent =
     (if AccountID h \<noteq> '''' then ((AccountID h, None), h, sent)
      else ((case GetAccounts v sent of
               (acc, Some e) \<Rightarrow> ('''', Some (ErrorString e))
             | (a # rest, None) \<Rightarrow> (FormatInt (ID a), None)
             | ([], None) \<Rightarrow> ('''', Some (ErrorString ''no account ID fetched''))),
            h, sent @ [GetAccounts_request]))"
  by (simp add: HUOBIHADAX_GetAccountID_def Let_def split: prod.splits option.splits list.splits)

text \<open>
  Claim C3, as amended. \<^verbatim>\<open>GetAccountID\<close> returns the driver's field \<open>AccountID\<close> without any
  request when that field is not empty. When it is empty, the call issues exactly one
  \<^verbatim>\<open>GetAccounts\<close> request and, if the venue answers with at least one account, returns the
  printed id of the first; the driver is left as it was, so the identifier is not stored.
  (The lock the method takes is the package variable \<^verbatim>\<open>mtx\<close>; locking is outside this
  statement.)
\<close>

theorem GetAccountID_fetches_without_storing:
  "(AccountID h \<noteq> '''' \<longrightarrow> HUOBIHADAX_GetAccountID v h sent = ((AccountID h, None), h, sent))
   \<and> (AccountID h = '''' \<longrightarrow>
        fst (snd (HUOBIHADAX_GetAccountID v h sent)) = h
        \<and> snd (snd (HUOBIHADAX_GetAccountID v h sent)) = sent @ [GetAccounts_request]
        \<and> (\<forall>a rest. GetAccounts v sent = (a # rest, None) \<longrightarrow>
              fst (HUOBIHADAX_GetAccountID v h sent) = (FormatInt (ID a), None)))"
  by (simp add: HUOBIHADAX_GetAccountID_cases)

text \<open>
  Witness for C3: a driver whose field is "9" answers from the field; a driver whose field
  is empty asks the venue and keeps its empty field.
\<close>

theorem GetAccountID_fetches_without_storing_witness:
  "HUOBIHADAX_GetAccountID (hb_venue_example '''') (hb_driver_example ''9'') []
     = ((''9'', None), hb_driver_example ''9'', [])
   \<and> HUOBIHADAX_GetAccountID (hb_venue_example '''') (hb_driver_example '''') []
     = ((''7'', None), hb_driver_example '''', [GetAccounts_request])"
proof -
  have a: "AccountID (hb_driver_example ''9'') \<noteq> ''''" "AccountID (hb_driver_example ''9'') = ''9''"
    and b: "AccountID (hb_driver_example '''') = ''''"
    by (simp_all add: hb_driver_example_def)
  have g: "GetAccounts (hb_venue_example '''') [] = (\<lparr>ID = 7\<rparr> # [], None)"
    by (simp add: hb_venue_example_def)
  note t1 = GetAccountID_fetches_without_storing
      [of "hb_driver_example ''9''" "hb_venue_example ''''" "[]"]
  note t2 = GetAccountID_fetches_without_storing
      [of "hb_driver_example ''''" "hb_venue_example ''''" "[]"]
  from t1 a have r1: "HUOBIHADAX_GetAccountID (hb_venue_example '''') (hb_driver_example ''9'') []
     = ((''9'', None), hb_driver_example ''9'', [])" by simp
  from t2 b g have r2: "fst (snd (HUOBIHADAX_GetAccountID (hb_venue_example '''')
          (hb_driver_example '''') [])) = hb_driver_example ''''"
    "snd (snd (HUOBIHADAX_GetAccountID (hb_venue_example '''') (hb_driver_example '''') []))
       = [GetAccounts_request]"
    "fst (HUOBIHADAX_GetAccountID (hb_venue_example '''') (hb_driver_example '''') [])
       = (FormatInt (ID \<lparr>ID = 7\<rparr>), None)"
    by simp_all
  from r1 r2 show ?thesis
    by (simp add: prod_eq_iff FormatInt_small)
qed

text \<open>
  Claim C3 as stated fails: after a first successful call on a driver with an empty field,
  the field is still empty, and a second call on the resulting driver issues a second
  \<^verbatim>\<open>GetAccounts\<close> request.
\<close>

theorem GetAccountID_second_call_requests_again:
  "fst (HUOBIHADAX_GetAccountID (hb_venue_example '''') (hb_driver_example '''') [])
     = (''7'', None)
   \<and> AccountID (fst (snd (HUOBIHADAX_GetAccountID (hb_venue_example '''')
                             (hb_driver_example '''') []))) = ''''
   \<and> snd (snd (HUOBIHADAX_GetAccountID (hb_venue_example '''')
         (fst (snd (HUOBIHADAX_GetAccountID (hb_venue_example '''') (hb_driver_example '''') [])))
         (snd (snd (HUOBIHADAX_GetAccountID (hb_venue_example '''') (hb_driver_example '''') [])))))
     = [GetAccounts_request, GetAccounts_request]"
  by (simp add: HUOBIHADAX_GetAccountID_cases hb_driver_example_def hb_venue_example_def
      FormatInt_small)

subsection \<open>HuobiHadax: SubmitOrder\<close>

lemma HUOBIHADAX_SubmitOrder_cases:
  "HUOBIHADAX_SubmitOrder ParseInt Symbol_of v sent p side orderType amount price clientID =
     (case formattedType side orderType of
        None \<Rightarrow> ((zero_SubmitOrderResponse, Some (ErrorString ''Unsupported order type'')), sent)
      | Some (t, with_price) \<Rightarrow>
          (let params = \<lparr>Params_Amount = amount, Params_Source = ''api'',
                          Params_Symbol = Symbol_of p,
                          Params_AccountID = fst (ParseInt clientID),
                          Params_Price = (if with_price then price else 0),
                          Params_Type = t\<rparr>;
               response = fst (SpotNewOrder v sent params);
               err = snd (SpotNewOrder v sent params)
           in ((\<lparr>IsOrderPlaced = (err = None),
                 OrderID = (if response > 0 then FormatInt response else '''')\<rparr>,
                map_option ErrorString err),
               sent @ [SpotNewOrder_request params])))"
  by (simp add: HUOBIHADAX_SubmitOrder_def Let_def zero_SubmitOrderResponse_def case_prod_beta
      split: option.splits)

text \<open>
  Claim C9, as amended. When \<^verbatim>\<open>strconv.ParseInt\<close> fails on the client id, returning the
  value \<open>a\<close> next to its error, that error has no effect on \<^verbatim>\<open>SubmitOrder\<close>: the call does
  what it would do had the parse succeeded with \<open>a\<close>. For an unsupported combination of side
  and order type it returns "Unsupported order type" and sends nothing; otherwise it sends
  one order request built with \<open>AccountID = a\<close> and returns the error of that request.
  (\<open>a\<close> is 0 for a text that is not a number, and the nearest bound of \<^verbatim>\<open>int64\<close> for a number
  out of range.)
\<close>

theorem SubmitOrder_drops_parse_error:
  assumes "ParseInt clientID = (a, Some e)"
  shows "HUOBIHADAX_SubmitOrder ParseInt Symbol_of v sent p side orderType amount price clientID
       = HUOBIHADAX_SubmitOrder (\<lambda>s. (a, None)) Symbol_of v sent p side orderType amount price clientID
     \<and> (formattedType side orderType = None \<longrightarrow>
          HUOBIHADAX_SubmitOrder ParseInt Symbol_of v sent p side orderType amount price clientID
            = ((zero_SubmitOrderResponse, Some (ErrorString ''Unsupported order type'')), sent))
     \<and> (\<forall>t with_price. formattedType side orderType = Some (t, with_price) \<longrightarrow>
          snd (HUOBIHADAX_SubmitOrder ParseInt Symbol_of v sent p side orderType amount price clientID)
            = sent @ [SpotNewOrder_request
                 \<lparr>Params_Amount = amount, Params_Source = ''api'', Params_Symbol = Symbol_of p,
                  Params_AccountID = a, Params_Price = (if with_price then price else 0),
                  Params_Type = t\<rparr>]
          \<and> snd (fst (HUOBIHADAX_SubmitOrder ParseInt Symbol_of v sent p side orderType amount price
                        clientID))
            = map_option ErrorString (snd (SpotNewOrder v sent
                 \<lparr>Params_Amount = amount, Params_Source = ''api'', Params_Symbol = Symbol_of p,
                  Params_AccountID = a, Params_Price = (if with_price then price else 0),
                  Params_Type = t\<rparr>)))"
  using assms by (simp add: HUOBIHADAX_SubmitOrder_cases Let_def split: option.splits)

text \<open>
  Witness for C9: the client id "abc" is no number; the order is sent for account 0 and
  reported as placed.
\<close>

theorem SubmitOrder_drops_parse_error_witness:
  "HUOBIHADAX_SubmitOrder ParseInt_decimal Symbol_of_example (hb_venue_example '''') []
       BTCUSD Buy Limit 2 5 ''abc''
     = ((\<lparr>IsOrderPlaced = True, OrderID = ''42''\<rparr>, None),
        [SpotNewOrder_request
           \<lparr>Params_Amount = 2, Params_Source = ''api'', Params_Symbol = ''btc-usd'',
            Params_AccountID = 0, Params_Price = 5,
            Params_Type = SpotNewOrderRequestTypeBuyLimit\<rparr>])"
proof -
  have p: "ParseInt_decimal ''abc'' = (0, Some (ErrorString ''invalid syntax''))"
    by (simp add: ParseInt_decimal_def)
  have "HUOBIHADAX_SubmitOrder ParseInt_decimal Symbol_of_example (hb_venue_example '''') []
       BTCUSD Buy Limit 2 5 ''abc''
     = HUOBIHADAX_SubmitOrder (\<lambda>s. (0, None)) Symbol_of_example (hb_venue_example '''') []
       BTCUSD Buy Limit 2 5 ''abc''"
    using SubmitOrder_drops_parse_error
      [where ParseInt = ParseInt_decimal and clientID = "''abc''", OF p] by blast
  then show ?thesis
    by (simp add: HUOBIHADAX_SubmitOrder_cases formattedType_def Symbol_of_example_def BTCUSD_def
        ascii_lower_def hb_venue_example_def FormatInt_small Let_def)
qed

text \<open>
  Claim C9 as stated fails for a client id that is a number out of range: the parse
  fails, and the request is built with the largest \<^verbatim>\<open>int64\<close> as account id, not with 0.
\<close>

theorem SubmitOrder_out_of_range_client_id:
  "snd (ParseInt_decimal ''9223372036854775808'') \<noteq> None
   \<and> snd (HUOBIHADAX_SubmitOrder ParseInt_decimal Symbol_of_example (hb_venue_example '''') []
            BTCUSD Buy Limit 2 5 ''9223372036854775808'')
       = [SpotNewOrder_request
           \<lparr>Params_Amount = 2, Params_Source = ''api'', Params_Symbol = ''btc-usd'',
            Params_AccountID = 9223372036854775807, Params_Price = 5,
            Params_Type = SpotNewOrderRequestTypeBuyLimit\<rparr>]"
  by (simp add: HUOBIHADAX_SubmitOrder_cases formattedType_def Symbol_of_example_def BTCUSD_def
      ascii_lower_def ParseInt_decimal_def Let_def)

subsection \<open>Market data cache\<close>

lemma cache_get_put:
  "cache_get (cache_put c k x) k' = (if k' = k then Some x else cache_get c k')"
  by (simp add: cache_get_def cache_put_def split: option.splits)

lemma orderbook_get_processed:
  "orderbook_GetOrderbook (orderbook_ProcessOrderbook c name p ob a) name p a = (ob, None)"
  by (simp add: orderbook_GetOrderbook_def orderbook_ProcessOrderbook_def cache_get_put)


subsection \<open>UpdateOrderbook\<close>

lemma LocalBitcoins_Item_prices: "map Item_Price (map LocalBitcoins_Item levels) = map Price levels"
  by (simp add: LocalBitcoins_Item_def)

lemma HUOBIHADAX_Items_prices:
  assumes "\<forall>data \<in> set levels. 2 \<le> length data"
  shows "\<exists>items. HUOBIHADAX_Items levels = Some items \<and>
           map Item_Price items = map (\<lambda>data. data ! 0) levels"
  using assms
  by (induction levels) (auto simp add: HUOBIHADAX_Item_def)

lemma LocalBitcoins_UpdateOrderbook_ok:
  assumes "GetOrderbook v sent (SecondCurrency p) = (resp, None)"
  shows "LocalBitcoins_UpdateOrderbook v l c sent p a =
     ((\<lparr>Base_Bids = map LocalBitcoins_Item (Bids resp),
         Base_Asks = map LocalBitcoins_Item (Asks resp)\<rparr>, None),
      orderbook_ProcessOrderbook c (Name l) p
        \<lparr>Base_Bids = map LocalBitcoins_Item (Bids resp),
         Base_Asks = map LocalBitcoins_Item (Asks resp)\<rparr> a,
      sent @ [GetOrderbook_request (SecondCurrency p)])"
  using assms
  by (simp add: LocalBitcoins_UpdateOrderbook_def Let_def orderbook_get_processed)

lemma HUOBIHADAX_UpdateOrderbook_ok:
  assumes "GetDepth v sent (FormatExchangeCurrency h p a) ''step1'' = (d, None)"
    and "\<forall>data \<in> set (Depth_Bids d @ Depth_Asks d). 2 \<le> length data"
  shows "\<exists>ob rest. HUOBIHADAX_UpdateOrderbook v h c sent p a = Some ((ob, None), rest)
           \<and> map Item_Price (Base_Bids ob) = map (\<lambda>data. data ! 0) (Depth_Bids d)
           \<and> map Item_Price (Base_Asks ob) = map (\<lambda>data. data ! 0) (Depth_Asks d)"
proof -
  from assms(2) obtain bids where bids: "HUOBIHADAX_Items (Depth_Bids d) = Some bids"
      "map Item_Price bids = map (\<lambda>data. data ! 0) (Depth_Bids d)"
    using HUOBIHADAX_Items_prices [of "Depth_Bids d"] by auto
  from assms(2) obtain asks where asks: "HUOBIHADAX_Items (Depth_Asks d) = Some asks"
      "map Item_Price asks = map (\<lambda>data. data ! 0) (Depth_Asks d)"
    using HUOBIHADAX_Items_prices [of "Depth_Asks d"] by auto
  from assms(1) bids asks show ?thesis
    by (simp add: HUOBIHADAX_UpdateOrderbook_def Let_def orderbook_get_processed)
qed

text \<open>
  Claim C5, as amended. When the request to the venue succeeds, the snapshot that
  \<^verbatim>\<open>UpdateOrderbook\<close> returns carries the price levels of the venue's response in the order
  of the response, for LocalBitcoins and (when every level has its two numbers, so that the
  call does not panic) for HuobiHadax. The wrappers do not sort: the snapshot satisfies the
  ordering invariant exactly when the response of the venue does.
\<close>

theorem UpdateOrderbook_keeps_venue_order:
  "(GetOrderbook v sent (SecondCurrency p) = (resp, None) \<longrightarrow>
      (\<exists>ob. fst (LocalBitcoins_UpdateOrderbook v l c sent p a) = (ob, None)
         \<and> map Item_Price (Base_Bids ob) = map Price (Bids resp)
         \<and> map Item_Price (Base_Asks ob) = map Price (Asks resp)
         \<and> (ordering_invariant ob \<longleftrightarrow>
              sorted_wrt (\<lambda>x y. x \<ge> y) (map Price (Bids resp)) \<and>
              sorted_wrt (\<lambda>x y. x \<le> y) (map Price (Asks resp)))))
   \<and> (GetDepth hv hsent (FormatExchangeCurrency h p a) ''step1'' = (d, None)
       \<and> (\<forall>data \<in> set (Depth_Bids d @ Depth_Asks d). 2 \<le> length data) \<longrightarrow>
      (\<exists>ob rest. HUOBIHADAX_UpdateOrderbook hv h hc hsent p a = Some ((ob, None), rest)
         \<and> map Item_Price (Base_Bids ob) = map (\<lambda>data. data ! 0) (Depth_Bids d)
         \<and> map Item_Price (Base_Asks ob) = map (\<lambda>data. data ! 0) (Depth_Asks d)
         \<and> (ordering_invariant ob \<longleftrightarrow>
              sorted_wrt (\<lambda>x y. x \<ge> y) (map (\<lambda>data. data ! 0) (Depth_Bids d)) \<and>
              sorted_wrt (\<lambda>x y. x \<le> y) (map (\<lambda>data. data ! 0) (Depth_Asks d)))))"
proof (intro conjI impI)
  assume "GetOrderbook v sent (SecondCurrency p) = (resp, None)"
  then show "\<exists>ob. fst (LocalBitcoins_UpdateOrderbook v l c sent p a) = (ob, None)
         \<and> map Item_Price (Base_Bids ob) = map Price (Bids resp)
         \<and> map Item_Price (Base_Asks ob) = map Price (Asks resp)
         \<and> (ordering_invariant ob \<longleftrightarrow>
              sorted_wrt (\<lambda>x y. x \<ge> y) (map Price (Bids resp)) \<and>
              sorted_wrt (\<lambda>x y. x \<le> y) (map Price (Asks resp)))"
    by (simp add: LocalBitcoins_UpdateOrderbook_ok ordering_invariant_def
        LocalBitcoins_Item_prices del: map_map)
next
  assume "GetDepth hv hsent (FormatExchangeCurrency h p a) ''step1'' = (d, None)
       \<and> (\<forall>data \<in> set (Depth_Bids d @ Depth_Asks d). 2 \<le> length data)"
  then obtain ob rest where
    "HUOBIHADAX_UpdateOrderbook hv h hc hsent p a = Some ((ob, None), rest)"
    "map Item_Price (Base_Bids ob) = map (\<lambda>data. data ! 0) (Depth_Bids d)"
    "map Item_Price (Base_Asks ob) = map (\<lambda>data. data ! 0) (Depth_Asks d)"
    using HUOBIHADAX_UpdateOrderbook_ok [of hv hsent h p a d hc] by blast
  then show "\<exists>ob rest. HUOBIHADAX_UpdateOrderbook hv h hc hsent p a = Some ((ob, None), rest)
         \<and> map Item_Price (Base_Bids ob) = map (\<lambda>data. data ! 0) (Depth_Bids d)
         \<and> map Item_Price (Base_Asks ob) = map (\<lambda>data. data ! 0) (Depth_Asks d)
         \<and> (ordering_invariant ob \<longleftrightarrow>
              sorted_wrt (\<lambda>x y. x \<ge> y) (map (\<lambda>data. data ! 0) (Depth_Bids d)) \<and>
              sorted_wrt (\<lambda>x y. x \<le> y) (map (\<lambda>data. data ! 0) (Depth_Asks d)))"
    by (simp add: ordering_invariant_def)
qed

text \<open>
  Witness for C5: the LocalBitcoins venue sends its bids in ascending price, and so does
  the snapshot; the HuobiHadax venue sends both sides in order, and so does the snapshot.
\<close>

theorem UpdateOrderbook_keeps_venue_order_witness:
  "(\<exists>ob. fst (LocalBitcoins_UpdateOrderbook (lbc_venue_listing [] None) lbc_driver_example
               empty_cache [] BTCUSD AssetTypeSpot) = (ob, None)
        \<and> map Item_Price (Base_Bids ob) = [1, 2] \<and> map Item_Price (Base_Asks ob) = [3, 4]
        \<and> \<not> ordering_invariant ob)
   \<and> (\<exists>ob rest. HUOBIHADAX_UpdateOrderbook (hb_venue_example '''') (hb_driver_example '''')
               empty_cache [] BTCUSD AssetTypeSpot = Some ((ob, None), rest)
        \<and> map Item_Price (Base_Bids ob) = [2, 1] \<and> map Item_Price (Base_Asks ob) = [3, 4]
        \<and> ordering_invariant ob)"
proof -
  let ?resp = "\<lparr>Bids = [\<lparr>Price = 1, Amount = 2\<rparr>, \<lparr>Price = 2, Amount = 2\<rparr>],
        Asks = [\<lparr>Price = 3, Amount = 3\<rparr>, \<lparr>Price = 4, Amount = 8\<rparr>]\<rparr>"
  let ?d = "\<lparr>Depth_Bids = [[2, 1], [1, 1]], Depth_Asks = [[3, 1], [4, 1]]\<rparr> :: Depth"
  have g: "GetOrderbook (lbc_venue_listing [] None) [] (SecondCurrency BTCUSD) = (?resp, None)"
    by (simp add: lbc_venue_listing_def)
  have gd: "GetDepth (hb_venue_example '''') []
              (FormatExchangeCurrency (hb_driver_example '''') BTCUSD AssetTypeSpot) ''step1''
            = (?d, None)"
    by (simp add: hb_venue_example_def)
  have len: "\<forall>data \<in> set (Depth_Bids ?d @ Depth_Asks ?d). 2 \<le> length data"
    by simp
  note t = UpdateOrderbook_keeps_venue_order
      [of "lbc_venue_listing [] None" "[]" BTCUSD ?resp lbc_driver_example empty_cache
          AssetTypeSpot "hb_venue_example ''''" "[]" "hb_driver_example ''''" ?d empty_cache]
  from t g have "\<exists>ob. fst (LocalBitcoins_UpdateOrderbook (lbc_venue_listing [] None)
               lbc_driver_example empty_cache [] BTCUSD AssetTypeSpot) = (ob, None)
         \<and> map Item_Price (Base_Bids ob) = map Price (Bids ?resp)
         \<and> map Item_Price (Base_Asks ob) = map Price (Asks ?resp)
         \<and> (ordering_invariant ob \<longleftrightarrow>
              sorted_wrt (\<lambda>x y. x \<ge> y) (map Price (Bids ?resp)) \<and>
              sorted_wrt (\<lambda>x y. x \<le> y) (map Price (Asks ?resp)))"
    by blast
  then have a: "\<exists>ob. fst (LocalBitcoins_UpdateOrderbook (lbc_venue_listing [] None)
               lbc_driver_example empty_cache [] BTCUSD AssetTypeSpot) = (ob, None)
        \<and> map Item_Price (Base_Bids ob) = [1, 2] \<and> map Item_Price (Base_Asks ob) = [3, 4]
        \<and> \<not> ordering_invariant ob"
    by simp
  from t gd len have "\<exists>ob rest. HUOBIHADAX_UpdateOrderbook (hb_venue_example '''')
               (hb_driver_example '''') empty_cache [] BTCUSD AssetTypeSpot = Some ((ob, None), rest)
         \<and> map Item_Price (Base_Bids ob) = map (\<lambda>data. data ! 0) (Depth_Bids ?d)
         \<and> map Item_Price (Base_Asks ob) = map (\<lambda>data. data ! 0) (Depth_Asks ?d)
         \<and> (ordering_invariant ob \<longleftrightarrow>
              sorted_wrt (\<lambda>x y. x \<ge> y) (map (\<lambda>data. data ! 0) (Depth_Bids ?d)) \<and>
              sorted_wrt (\<lambda>x y. x \<le> y) (map (\<lambda>data. data ! 0) (Depth_Asks ?d)))"
    by blast
  then have b: "\<exists>ob rest. HUOBIHADAX_UpdateOrderbook (hb_venue_example '''')
               (hb_driver_example '''') empty_cache [] BTCUSD AssetTypeSpot = Some ((ob, None), rest)
        \<and> map Item_Price (Base_Bids ob) = [2, 1] \<and> map Item_Price (Base_Asks ob) = [3, 4]
        \<and> ordering_invariant ob"
    by simp
  from a b show ?thesis by blast
qed

text \<open>
  Claim C5 as stated fails: for a venue that sends the bids 1 and 2 in this order, the
  snapshot of \<^verbatim>\<open>UpdateOrderbook\<close> has ascending bids and breaks the ordering invariant.
\<close>

theorem UpdateOrderbook_bids_ascending:
  "\<not> ordering_invariant
       (fst (fst (LocalBitcoins_UpdateOrderbook (lbc_venue_listing [] None) lbc_driver_example
                    empty_cache [] BTCUSD AssetTypeSpot)))
   \<and> fst (LocalBitcoins_UpdateOrderbook (lbc_venue_listing [] None) lbc_driver_example
                    empty_cache [] BTCUSD AssetTypeSpot)
       = (\<lparr>Base_Bids = [\<lparr>Item_Amount = 2, Item_Price = 1\<rparr>, \<lparr>Item_Amount = 1, Item_Price = 2\<rparr>],
           Base_Asks = [\<lparr>Item_Amount = 1, Item_Price = 3\<rparr>, \<lparr>Item_Amount = 2, Item_Price = 4\<rparr>]\<rparr>,
          None)"
proof -
  have g: "GetOrderbook (lbc_venue_listing [] None) [] (SecondCurrency BTCUSD) =
      (\<lparr>Bids = [\<lparr>Price = 1, Amount = 2\<rparr>, \<lparr>Price = 2, Amount = 2\<rparr>],
        Asks = [\<lparr>Price = 3, Amount = 3\<rparr>, \<lparr>Price = 4, Amount = 8\<rparr>]\<rparr>, None)"
    by (simp add: lbc_venue_listing_def)
  show ?thesis
    by (simp add: LocalBitcoins_UpdateOrderbook_ok [OF g] ordering_invariant_def
        LocalBitcoins_Item_def)
qed

subsection \<open>FetchTicker\<close>









subsection \<open>OKEX: GetFee\<close>

text \<open>
  The model returns what \<^verbatim>\<open>TestGetFee\<close> expects, case by case: the basic trade fee, the
  high quantity, the maker, the negative purchase price, the withdrawal fee of a known and
  of an unknown currency, the deposit fee and the two bank fees.
\<close>

lemma GetFee_test_expectations:
  "OKEX_GetFee withdrawalFees_example setFeeBuilder = (0.0015, None)"
  "OKEX_GetFee withdrawalFees_example (setFeeBuilder\<lparr>Fee_Amount := 1000, Fee_PurchasePrice := 1000\<rparr>)
     = (1500, None)"
  "OKEX_GetFee withdrawalFees_example (setFeeBuilder\<lparr>Fee_IsMaker := True\<rparr>) = (0.001, None)"
  "OKEX_GetFee withdrawalFees_example (setFeeBuilder\<lparr>Fee_PurchasePrice := - 1000\<rparr>) = (0, None)"
  "OKEX_GetFee withdrawalFees_example (setFeeBuilder\<lparr>Fee_FeeType := CryptocurrencyWithdrawalFee\<rparr>)
     = (0.001, None)"
  "OKEX_GetFee withdrawalFees_example
     (setFeeBuilder\<lparr>Fee_FirstCurrency := ''hello'', Fee_FeeType := CryptocurrencyWithdrawalFee\<rparr>)
     = (0, None)"
  "OKEX_GetFee withdrawalFees_example (setFeeBuilder\<lparr>Fee_FeeType := CyptocurrencyDepositFee\<rparr>)
     = (0, None)"
  "OKEX_GetFee withdrawalFees_example (setFeeBuilder\<lparr>Fee_FeeType := InternationalBankDepositFee\<rparr>)
     = (0, None)"
  "OKEX_GetFee withdrawalFees_example
     (setFeeBuilder\<lparr>Fee_FeeType := InternationalBankWithdrawalFee, Fee_CurrencyItem := ''USD''\<rparr>)
     = (0, None)"
  by (simp_all add: OKEX_GetFee_def setFeeBuilder_def withdrawalFees_example_def)

text \<open>
  Claim C7, on the model of the spec's fee policy. For every trade fee request whose price
  is not positive, \<^verbatim>\<open>GetFee\<close> returns the fee 0 and no error, whatever the amount, the maker
  flag and the other fields.
\<close>

theorem GetFee_trade_fee_zero_at_nonpositive_price:
  assumes "Fee_FeeType feeBuilder = CryptocurrencyTradeFee"
    and "Fee_PurchasePrice feeBuilder \<le> 0"
  shows "OKEX_GetFee withdrawalFees feeBuilder = (0, None)"
  using assms by (simp add: OKEX_GetFee_def)

text \<open>
  Witness for C7: the request of the test with the amount 1000 and the price -1000 of the
  claim's example, for a taker and for a maker.
\<close>

theorem GetFee_trade_fee_zero_at_nonpositive_price_witness:
  "OKEX_GetFee withdrawalFees_example
     (setFeeBuilder\<lparr>Fee_Amount := 1000, Fee_PurchasePrice := - 1000\<rparr>) = (0, None)
   \<and> OKEX_GetFee withdrawalFees_example
     (setFeeBuilder\<lparr>Fee_Amount := 1000, Fee_PurchasePrice := - 1000, Fee_IsMaker := True\<rparr>)
       = (0, None)"
proof -
  have t: "Fee_FeeType (setFeeBuilder\<lparr>Fee_Amount := 1000, Fee_PurchasePrice := - 1000\<rparr>)
      = CryptocurrencyTradeFee"
    "Fee_FeeType (setFeeBuilder\<lparr>Fee_Amount := 1000, Fee_PurchasePrice := - 1000,
       Fee_IsMaker := True\<rparr>) = CryptocurrencyTradeFee"
    by (simp_all add: setFeeBuilder_def)
  have p: "Fee_PurchasePrice (setFeeBuilder\<lparr>Fee_Amount := 1000, Fee_PurchasePrice := - 1000\<rparr>) \<le> 0"
    "Fee_PurchasePrice (setFeeBuilder\<lparr>Fee_Amount := 1000, Fee_PurchasePrice := - 1000,
       Fee_IsMaker := True\<rparr>) \<le> 0"
    by simp_all
  show ?thesis
    using GetFee_trade_fee_zero_at_nonpositive_price [OF t(1) p(1), of withdrawalFees_example]
      GetFee_trade_fee_zero_at_nonpositive_price [OF t(2) p(2), of withdrawalFees_example]
    by simp
qed

end
